theory Spec2Isabelle
  imports Complex_Main
begin

section \<open>Python values, exceptions and the built-in operations the scripts use\<close>

text \<open>
  The scripts exchange untyped Python data with the chat endpoint and with the JSON log:
  a reply is a \<^verbatim>\<open>dict\<close>, a log file holds whatever \<^verbatim>\<open>json.load\<close> returns. \<open>pyval\<close> is the
  type of these values. A Python \<^verbatim>\<open>str\<close> is a HOL \<open>string\<close>, each \<open>char\<close> read as the code
  point of the same number (0 to 255); a \<^verbatim>\<open>float\<close> is a real number, so arithmetic on it
  is exact. A \<^verbatim>\<open>dict\<close> is an association list in insertion order.
\<close>

datatype pyval =
    PNone
  | PBool bool
  | PInt int
  | PFloat real
  | PStr string
  | PList "pyval list"
  | PDict "(string \<times> pyval) list"

type_synonym pydict = "(string \<times> pyval) list"

datatype exn_class =
    KeyError | IndexError | TypeError | AttributeError | ValueError
  | ZeroDivisionError | OverflowError | RuntimeError | OSError | FileNotFoundError
  | JSONDecodeError
  | OtherError string

text \<open>An exception: its class and \<^verbatim>\<open>str(e)\<close>. \<^verbatim>\<open>IOError\<close> is Python 3's \<^verbatim>\<open>OSError\<close>.
  \<open>OtherError n\<close> is any further subclass of \<^verbatim>\<open>Exception\<close>, named \<open>n\<close>, that the chat
  client raises (a connection or response error). Every exception of this type derives
  from \<^verbatim>\<open>Exception\<close>: what is raised outside that class (\<^verbatim>\<open>KeyboardInterrupt\<close>, \<^verbatim>\<open>SystemExit\<close>) is
  not a failure of the call and is not part of the model.\<close>

datatype exn = Exn exn_class string

fun exn_class_of :: "exn \<Rightarrow> exn_class" where
  "exn_class_of (Exn c m) = c"

fun exn_str :: "exn \<Rightarrow> string" where
  "exn_str (Exn c m) = m"

fun class_name :: "exn_class \<Rightarrow> string" where
  "class_name KeyError = ''KeyError''"
| "class_name IndexError = ''IndexError''"
| "class_name TypeError = ''TypeError''"
| "class_name AttributeError = ''AttributeError''"
| "class_name ValueError = ''ValueError''"
| "class_name ZeroDivisionError = ''ZeroDivisionError''"
| "class_name OverflowError = ''OverflowError''"
| "class_name RuntimeError = ''RuntimeError''"
| "class_name OSError = ''OSError''"
| "class_name FileNotFoundError = ''FileNotFoundError''"
| "class_name JSONDecodeError = ''JSONDecodeError''"
| "class_name (OtherError n) = n"

fun type_name :: "pyval \<Rightarrow> string" where
  "type_name PNone = ''NoneType''"
| "type_name (PBool b) = ''bool''"
| "type_name (PInt i) = ''int''"
| "type_name (PFloat x) = ''float''"
| "type_name (PStr s) = ''str''"
| "type_name (PList xs) = ''list''"
| "type_name (PDict kvs) = ''dict''"

text \<open>Sequencing of steps that may raise: the first exception ends the sequence.\<close>

fun and_then :: "exn + 'a \<Rightarrow> ('a \<Rightarrow> exn + 'b) \<Rightarrow> exn + 'b" where
  "and_then (Inl e) f = Inl e"
| "and_then (Inr x) f = f x"

definition quoted :: "string \<Rightarrow> string" where
  "quoted s = CHR 0x27 # s @ [CHR 0x27]"

fun show_nat :: "nat \<Rightarrow> string" where
  "show_nat n =
     (if n < 10 then [char_of (48 + n)]
      else show_nat (n div 10) @ [char_of (48 + n mod 10)])"

declare show_nat.simps [simp del]

definition show_int :: "int \<Rightarrow> string" where
  "show_int i = (if i < 0 then CHR ''-'' # show_nat (nat (- i)) else show_nat (nat i))"

definition not_subscriptable :: "pyval \<Rightarrow> exn" where
  "not_subscriptable v =
     Exn TypeError (quoted (type_name v) @ '' object is not subscriptable'')"

text \<open>\<^verbatim>\<open>v[k]\<close> for a string key \<open>k\<close>.\<close>

fun getitem_str :: "pyval \<Rightarrow> string \<Rightarrow> exn + pyval" where
  "getitem_str (PDict kvs) k =
     (case map_of kvs k of
        None \<Rightarrow> Inl (Exn KeyError (quoted k))
      | Some v \<Rightarrow> Inr v)"
| "getitem_str (PList xs) k =
     Inl (Exn TypeError ''list indices must be integers or slices, not str'')"
| "getitem_str (PStr s) k =
     Inl (Exn TypeError (''string indices must be integers, not '' @ quoted ''str''))"
| "getitem_str v k = Inl (not_subscriptable v)"

text \<open>\<^verbatim>\<open>v[i]\<close> for an integer \<open>i\<close>; a negative index counts from the end. The keys of a
  \<open>pydict\<close> are strings, so an integer is never one of them.\<close>

definition py_index :: "'a list \<Rightarrow> int \<Rightarrow> 'a option" where
  "py_index xs i =
     (let n = int (length xs); j = (if i < 0 then n + i else i)
      in if 0 \<le> j \<and> j < n then Some (xs ! nat j) else None)"

fun getitem_int :: "pyval \<Rightarrow> int \<Rightarrow> exn + pyval" where
  "getitem_int (PList xs) i =
     (case py_index xs i of
        None \<Rightarrow> Inl (Exn IndexError ''list index out of range'')
      | Some v \<Rightarrow> Inr v)"
| "getitem_int (PStr s) i =
     (case py_index s i of
        None \<Rightarrow> Inl (Exn IndexError ''string index out of range'')
      | Some c \<Rightarrow> Inr (PStr [c]))"
| "getitem_int (PDict kvs) i = Inl (Exn KeyError (show_int i))"
| "getitem_int v i = Inl (not_subscriptable v)"

text \<open>Truth value of a Python object, as \<^verbatim>\<open>if x\<close> and \<^verbatim>\<open>x and y\<close> test it.\<close>

fun truthy :: "pyval \<Rightarrow> bool" where
  "truthy PNone = False"
| "truthy (PBool b) = b"
| "truthy (PInt i) = (i \<noteq> 0)"
| "truthy (PFloat x) = (x \<noteq> 0)"
| "truthy (PStr s) = (s \<noteq> [])"
| "truthy (PList xs) = (xs \<noteq> [])"
| "truthy (PDict kvs) = (kvs \<noteq> [])"

text \<open>\<^verbatim>\<open>v.get(k)\<close>: \<^verbatim>\<open>None\<close> for a missing key; only a \<^verbatim>\<open>dict\<close> has the method.\<close>

fun py_get :: "pyval \<Rightarrow> string \<Rightarrow> exn + pyval" where
  "py_get (PDict kvs) k = Inr (case map_of kvs k of None \<Rightarrow> PNone | Some v \<Rightarrow> v)"
| "py_get v k =
     Inl (Exn AttributeError
       (quoted (type_name v) @ '' object has no attribute '' @ quoted ''get''))"

text \<open>\<^verbatim>\<open>d[k] = v\<close> and \<^verbatim>\<open>d.update({...})\<close>: a key already present keeps its position.\<close>

fun dict_set :: "pydict \<Rightarrow> string \<Rightarrow> pyval \<Rightarrow> pydict" where
  "dict_set [] k v = [(k, v)]"
| "dict_set ((k', v') # kvs) k v =
     (if k' = k then (k, v) # kvs else (k', v') # dict_set kvs k v)"

fun dict_update :: "pydict \<Rightarrow> pydict \<Rightarrow> pydict" where
  "dict_update d [] = d"
| "dict_update d ((k, v) # kvs) = dict_update (dict_set d k v) kvs"

subsection \<open>Strings\<close>

text \<open>\<^verbatim>\<open>str.isspace\<close> on the code points below 256: tab to carriage return, the four
  separators 28 to 31, space, NEL (133) and the no-break space (160).\<close>

definition py_isspace :: "char \<Rightarrow> bool" where
  "py_isspace c =
     (let n = (of_char c :: nat)
      in (9 \<le> n \<and> n \<le> 13) \<or> (28 \<le> n \<and> n \<le> 32) \<or> n = 133 \<or> n = 160)"

definition strip :: "string \<Rightarrow> string" where
  "strip s = rev (dropWhile py_isspace (rev (dropWhile py_isspace s)))"

text \<open>\<^verbatim>\<open>v.strip()\<close> on an arbitrary value: only a \<^verbatim>\<open>str\<close> has the method.\<close>

fun strip_method :: "pyval \<Rightarrow> exn + string" where
  "strip_method (PStr s) = Inr (strip s)"
| "strip_method v =
     Inl (Exn AttributeError
       (quoted (type_name v) @ '' object has no attribute '' @ quoted ''strip''))"

text \<open>\<^verbatim>\<open>len(s.encode('utf-8'))\<close>: UTF-8 takes one byte for a code point below 128 and two
  for the others below 2048.\<close>

definition utf8_len :: "string \<Rightarrow> nat" where
  "utf8_len s = sum_list (map (\<lambda>c. if (of_char c :: nat) < 128 then 1 else 2) s)"

fun py_len :: "pyval \<Rightarrow> exn + nat" where
  "py_len (PStr s) = Inr (length s)"
| "py_len (PList xs) = Inr (length xs)"
| "py_len (PDict kvs) = Inr (length kvs)"
| "py_len v =
     Inl (Exn TypeError (''object of type '' @ quoted (type_name v) @ '' has no len()''))"

fun encode_len :: "pyval \<Rightarrow> exn + nat" where
  "encode_len (PStr s) = Inr (utf8_len s)"
| "encode_len v =
     Inl (Exn AttributeError
       (quoted (type_name v) @ '' object has no attribute '' @ quoted ''encode''))"

subsection \<open>Numbers\<close>

text \<open>\<^verbatim>\<open>round(x, n)\<close>: the nearest multiple of \<open>10\<^sup>-\<^sup>n\<close>, a tie going to the even one.\<close>

definition round_half_even :: "real \<Rightarrow> int" where
  "round_half_even x =
     (let f = \<lfloor>x\<rfloor>; r = x - of_int f
      in if r < 1 / 2 then f
         else if 1 / 2 < r then f + 1
         else if even f then f else f + 1)"

definition py_round :: "real \<Rightarrow> nat \<Rightarrow> real" where
  "py_round x n = of_int (round_half_even (x * 10 ^ n)) / 10 ^ n"

text \<open>
  \<^verbatim>\<open>v / d\<close> with a \<^verbatim>\<open>float\<close> divisor \<open>d\<close>. The left operand is converted to a \<^verbatim>\<open>float\<close> first:
  an \<^verbatim>\<open>int\<close> whose nearest double would be \<open>2\<^sup>1\<^sup>0\<^sup>2\<^sup>4\<close> or more does not convert and raises an
  \<^verbatim>\<open>OverflowError\<close>; a \<^verbatim>\<open>bool\<close> is an \<^verbatim>\<open>int\<close>; any other operand that is not a number is a type
  error. Then a zero divisor raises. Below the overflow bound the conversion, the quotient
  and \<^verbatim>\<open>round\<close> are those of the real numbers: Python computes them on doubles, which can
  differ from the real result in the last decimal kept (so \<^verbatim>\<open>round(107 / 40, 2)\<close> is 2.67 in
  Python and 2.68 here).
\<close>

definition bad_operand :: "pyval \<Rightarrow> exn" where
  "bad_operand v =
     Exn TypeError (''unsupported operand type(s) for /: '' @ quoted (type_name v)
       @ '' and '' @ quoted ''float'')"

definition float_of_int :: "int \<Rightarrow> exn + real" where
  "float_of_int i =
     (if \<bar>i\<bar> < 2 ^ 1024 - 2 ^ 970 then Inr (of_int i)
      else Inl (Exn OverflowError ''int too large to convert to float''))"

definition div_float :: "real \<Rightarrow> real \<Rightarrow> exn + real" where
  "div_float x d =
     (if d = 0 then Inl (Exn ZeroDivisionError ''float division by zero'') else Inr (x / d))"

fun truediv :: "pyval \<Rightarrow> real \<Rightarrow> exn + real" where
  "truediv (PInt i) d = and_then (float_of_int i) (\<lambda>x. div_float x d)"
| "truediv (PBool b) d = div_float (if b then 1 else 0) d"
| "truediv (PFloat x) d = div_float x d"
| "truediv v d = Inl (bad_operand v)"

section \<open>The environment of a generation call\<close>

text \<open>
  What a generation call reads from outside: the chat endpoint (\<^verbatim>\<open>ollama.chat\<close>, given the
  model name and the prompt of the single user message, returns a reply or raises), the
  clock read before and after the call, and the wall-clock timestamp in ISO format.
  Every function below returns, beside its result, the list of chat calls it made.
  Console output is not modelled: every \<^verbatim>\<open>print\<close> is taken to succeed.
\<close>

record env =
  chat :: "string \<Rightarrow> string \<Rightarrow> exn + pyval"
  t_start :: real
  t_end :: real
  now_iso :: string

type_synonym chat_call = "string \<times> string"

text \<open>A generation function returns the text alone, or the text with its metrics.\<close>

datatype ('t, 'm) gen_result = Plain 't | Bench 't 'm

fun text_of :: "('t, 'm) gen_result \<Rightarrow> 't" where
  "text_of (Plain t) = t"
| "text_of (Bench t m) = t"

fun metrics_of :: "('t, 'm) gen_result \<Rightarrow> 'm option" where
  "metrics_of (Plain t) = None"
| "metrics_of (Bench t m) = Some m"

definition nl :: string where
  "nl = [CHR 0x0A]"

definition join_lines :: "string list \<Rightarrow> string" where
  "join_lines ls = concat (map (\<lambda>l. l @ nl) ls)"

section \<open>The class-based version (\<^verbatim>\<open>ontologyGenerator_V1/models/ollamaTest.py\<close>)\<close>

record BenchmarkMetrics =
  model :: string
  timestamp :: string
  input_size_chars :: nat
  input_size_kb :: real
  generation_time_seconds :: real
  output_size_chars :: nat
  output_size_kb :: real
  success :: bool
  error :: "string option"
  tokens_generated :: pyval
  tokens_per_second :: "real option"

text \<open>\<open>tokens_generated\<close> holds whatever \<^verbatim>\<open>response.get('eval_count')\<close> returned, \<open>PNone\<close>
  when it is absent. \<open>to_dict\<close> keeps the fields that are not \<^verbatim>\<open>None\<close>, in field order.\<close>

definition opt_val :: "('a \<Rightarrow> pyval) \<Rightarrow> 'a option \<Rightarrow> pyval" where
  "opt_val f x = (case x of None \<Rightarrow> PNone | Some v \<Rightarrow> f v)"

definition asdict :: "BenchmarkMetrics \<Rightarrow> pydict" where
  "asdict m =
     [(''model'', PStr (model m)),
      (''timestamp'', PStr (timestamp m)),
      (''input_size_chars'', PInt (int (input_size_chars m))),
      (''input_size_kb'', PFloat (input_size_kb m)),
      (''generation_time_seconds'', PFloat (generation_time_seconds m)),
      (''output_size_chars'', PInt (int (output_size_chars m))),
      (''output_size_kb'', PFloat (output_size_kb m)),
      (''success'', PBool (success m)),
      (''error'', opt_val PStr (error m)),
      (''tokens_generated'', tokens_generated m),
      (''tokens_per_second'', opt_val PFloat (tokens_per_second m))]"

definition to_dict :: "BenchmarkMetrics \<Rightarrow> pydict" where
  "to_dict m = filter (\<lambda>(k, v). v \<noteq> PNone) (asdict m)"

definition calculate_size :: "string \<Rightarrow> nat \<times> real" where
  "calculate_size content = (length content, real (utf8_len content) / 1024)"

definition create_prompt :: "string \<Rightarrow> string" where
  "create_prompt uml =
     join_lines
       [''You are an expert in converting UML diagrams into OWL ontologies.'',
        ''Given the following UML diagram in XMI format, generate a corresponding OWL ontology in Turtle format.'',
        [],
        ''Requirements:'',
        ''1. Use proper OWL/RDFS namespaces (owl:, rdfs:, rdf:)'',
        ''2. Convert classes with owl:Class'',
        ''3. Preserve inheritance relationships with rdfs:subClassOf'',
        ''4. Define properties as owl:DatatypeProperty or owl:ObjectProperty'',
        ''5. Include cardinality constraints using owl:Restriction'',
        ''6. Maintain all associations and their multiplicities'',
        [],
        ''UML XMI:'']
     @ uml @ nl @ nl
     @ ''Respond ONLY with the OWL ontology in Turtle format, without explanations.''"

text \<open>\<^verbatim>\<open>tokens = response.get('eval_count') if response else None\<close>\<close>

definition tokens_of :: "pyval option \<Rightarrow> exn + pyval" where
  "tokens_of response =
     (case response of
        None \<Rightarrow> Inr PNone
      | Some r \<Rightarrow> if truthy r then py_get r ''eval_count'' else Inr PNone)"

text \<open>\<^verbatim>\<open>round(tokens / duration, 2) if tokens and duration > 0 else None\<close>\<close>

definition tokens_per_sec_of :: "pyval \<Rightarrow> real \<Rightarrow> exn + real option" where
  "tokens_per_sec_of tokens duration =
     (if truthy tokens \<and> 0 < duration
      then and_then (truediv tokens duration) (\<lambda>q. Inr (Some (py_round q 2)))
      else Inr None)"

definition extract_metrics ::
  "string \<Rightarrow> string \<Rightarrow> string \<Rightarrow> string \<Rightarrow> real \<Rightarrow> pyval option \<Rightarrow> string option
     \<Rightarrow> exn + BenchmarkMetrics" where
  "extract_metrics self_model now uml ontology duration response err =
     (let (input_chars, input_kb) = calculate_size uml;
          (output_chars, output_kb) = calculate_size ontology
      in and_then (tokens_of response) (\<lambda>tokens.
         and_then (tokens_per_sec_of tokens duration) (\<lambda>tokens_per_sec.
           Inr \<lparr>model = self_model,
                timestamp = now,
                input_size_chars = input_chars,
                input_size_kb = py_round input_kb 3,
                generation_time_seconds = py_round duration 3,
                output_size_chars = output_chars,
                output_size_kb = py_round output_kb 3,
                success = (err = None),
                error = err,
                tokens_generated = tokens,
                tokens_per_second = tokens_per_sec\<rparr>)))"

text \<open>
  The \<^verbatim>\<open>try\<close> statement of \<^verbatim>\<open>generate\<close>. \<open>try_state\<close> is what its \<^verbatim>\<open>try\<close> and \<^verbatim>\<open>except\<close> clauses
  leave to the \<^verbatim>\<open>finally\<close> clause: the local variables and the exception in flight
  (\<open>st_pending\<close>), here always the \<^verbatim>\<open>RuntimeError\<close> an \<^verbatim>\<open>except\<close> clause raised.
\<close>

record try_state =
  st_ontology_content :: string
  st_response_data :: "pyval option"
  st_error_msg :: "string option"
  st_pending :: "exn option"

definition reply_content :: "pyval \<Rightarrow> exn + string" where
  "reply_content response =
     and_then (and_then (getitem_str response ''message'') (\<lambda>m. getitem_str m ''content''))
       strip_method"

text \<open>The message the \<^verbatim>\<open>except\<close> clauses build: the first clause is for a \<^verbatim>\<open>KeyError\<close>, the
  second one for every other exception.\<close>

definition except_message :: "exn \<Rightarrow> string" where
  "except_message x =
     (if exn_class_of x = KeyError
      then ''Unexpected response format from Ollama: '' @ exn_str x
      else ''Ollama API error: '' @ class_name (exn_class_of x) @ '': '' @ exn_str x)"

definition generate_try :: "env \<Rightarrow> string \<Rightarrow> string \<Rightarrow> try_state" where
  "generate_try e self_model prompt =
     (case and_then (chat e self_model prompt)
             (\<lambda>response. and_then (reply_content response) (\<lambda>c. Inr (c, response))) of
        Inr (c, response) \<Rightarrow>
          \<lparr>st_ontology_content = c, st_response_data = Some response,
           st_error_msg = None, st_pending = None\<rparr>
      | Inl x \<Rightarrow>
          (let msg = except_message x
           in \<lparr>st_ontology_content = [], st_response_data = None,
               st_error_msg = Some msg, st_pending = Some (Exn RuntimeError msg)\<rparr>))"

text \<open>
  \<^verbatim>\<open>OntologyGenerator.generate\<close>. With \<open>benchmark\<close> the \<^verbatim>\<open>finally\<close> clause returns, which
  discards the exception in flight; an exception raised inside the \<^verbatim>\<open>finally\<close> clause
  replaces it. Without \<open>benchmark\<close> the exception in flight leaves the function.
\<close>

definition generate ::
  "env \<Rightarrow> string \<Rightarrow> string \<Rightarrow> bool
     \<Rightarrow> (exn + (string, BenchmarkMetrics) gen_result) \<times> chat_call list" where
  "generate e self_model uml benchmark =
     (if uml = [] \<or> strip uml = []
      then (Inl (Exn ValueError ''UML input cannot be empty''), [])
      else
        let prompt = create_prompt uml;
            st = generate_try e self_model prompt;
            calls = [(self_model, prompt)];
            duration = t_end e - t_start e
        in if benchmark
           then (case extract_metrics self_model (now_iso e) uml (st_ontology_content st)
                        duration (st_response_data st) (st_error_msg st) of
                   Inl x \<Rightarrow> (Inl x, calls)
                 | Inr metrics \<Rightarrow> (Inr (Bench (st_ontology_content st) metrics), calls))
           else (case st_pending st of
                   Some x \<Rightarrow> (Inl x, calls)
                 | None \<Rightarrow> (Inr (Plain (st_ontology_content st)), calls)))"

text \<open>The legacy wrapper \<^verbatim>\<open>generate_ontology_with_ollama\<close> of the class-based version.\<close>

definition V1_generate_ontology_with_ollama ::
  "env \<Rightarrow> string \<Rightarrow> string \<Rightarrow> bool \<Rightarrow> (exn + (string, pydict) gen_result) \<times> chat_call list" where
  "V1_generate_ontology_with_ollama e uml mdl benchmark =
     (case generate e mdl uml benchmark of
        (Inl x, calls) \<Rightarrow> (Inl x, calls)
      | (Inr (Bench ontology metrics), calls) \<Rightarrow> (Inr (Bench ontology (to_dict metrics)), calls)
      | (Inr (Plain ontology), calls) \<Rightarrow> (Inr (Plain ontology), calls))"

section \<open>The function with manual benchmarking (\<^verbatim>\<open>ontologyGenerator/models/ollamaTest.py\<close>)\<close>

text \<open>\<^verbatim>\<open>k in v\<close> for a string \<open>k\<close>: a key of a \<^verbatim>\<open>dict\<close>, an element of a \<^verbatim>\<open>list\<close>, a substring
  of a \<^verbatim>\<open>str\<close>.\<close>

definition is_substring :: "string \<Rightarrow> string \<Rightarrow> bool" where
  "is_substring k s = list_ex (\<lambda>i. take (length k) (drop i s) = k) [0..<Suc (length s)]"

fun py_contains :: "pyval \<Rightarrow> string \<Rightarrow> exn + bool" where
  "py_contains (PDict kvs) k = Inr (map_of kvs k \<noteq> None)"
| "py_contains (PList xs) k = Inr (PStr k \<in> set xs)"
| "py_contains (PStr s) k = Inr (is_substring k s)"
| "py_contains v k =
     Inl (Exn TypeError (''argument of type '' @ quoted (type_name v) @ '' is not iterable''))"

text \<open>\<^verbatim>\<open>v.get(k, d)\<close>\<close>

fun py_get_default :: "pyval \<Rightarrow> string \<Rightarrow> pyval \<Rightarrow> exn + pyval" where
  "py_get_default (PDict kvs) k d = Inr (case map_of kvs k of None \<Rightarrow> d | Some v \<Rightarrow> v)"
| "py_get_default v k d =
     Inl (Exn AttributeError
       (quoted (type_name v) @ '' object has no attribute '' @ quoted ''get''))"

definition ollamaTest_prompt :: "string \<Rightarrow> string" where
  "ollamaTest_prompt uml =
     join_lines
       [''You are an expert in converting UML diagrams into OWL ontologies.'',
        ''Given the following UML diagram XMI, generate a corresponding OWL ontology in Turtle format.'',
        [],
        ''UML XMI:'']
     @ uml @ nl @ nl
     @ ''Respond ONLY with the OWL ontology in Turtle format, without any additional explanations or JSON wrapping.''
     @ nl"

text \<open>The metrics dictionary as built before the \<^verbatim>\<open>try\<close> statement.\<close>

definition ollamaTest_initial_metrics :: "env \<Rightarrow> string \<Rightarrow> string \<Rightarrow> pydict" where
  "ollamaTest_initial_metrics e uml mdl =
     [(''model'', PStr mdl),
      (''timestamp'', PStr (now_iso e)),
      (''input_size_chars'', PInt (int (length uml))),
      (''input_size_kb'', PFloat (real (utf8_len uml) / 1024))]"

text \<open>
  The token block of the \<^verbatim>\<open>try\<close> body. It stores \<^verbatim>\<open>tokens_generated\<close> before it divides, so
  an exception of the division leaves the first key in the dictionary: the result on
  failure is the exception with the dictionary as it then is.
\<close>

definition ollamaTest_token_info ::
  "env \<Rightarrow> pyval \<Rightarrow> pydict \<Rightarrow> (exn \<times> pydict) + pydict" where
  "ollamaTest_token_info e response metrics =
     (case py_contains response ''eval_count'' of
        Inl x \<Rightarrow> Inl (x, metrics)
      | Inr False \<Rightarrow> Inr metrics
      | Inr True \<Rightarrow>
          (case py_get_default response ''eval_count'' (PInt 0) of
             Inl x \<Rightarrow> Inl (x, metrics)
           | Inr eval_count \<Rightarrow>
               (let metrics' = dict_set metrics ''tokens_generated'' eval_count
                in case truediv eval_count (t_end e - t_start e) of
                     Inl x \<Rightarrow> Inl (x, metrics')
                   | Inr q \<Rightarrow>
                       Inr (dict_set metrics' ''tokens_per_second'' (PFloat (py_round q 2))))))"

text \<open>The \<^verbatim>\<open>try\<close> body: its result, or the exception with the dictionary as it then is.\<close>

definition ollamaTest_try_body ::
  "env \<Rightarrow> string \<Rightarrow> string \<Rightarrow> bool \<Rightarrow> pydict
     \<Rightarrow> (exn \<times> pydict) + (pyval, pydict) gen_result" where
  "ollamaTest_try_body e mdl prompt benchmark metrics =
     (case chat e mdl prompt of
        Inl x \<Rightarrow> Inl (x, metrics)
      | Inr response \<Rightarrow>
          (case and_then (getitem_str response ''message'') (\<lambda>m. getitem_str m ''content'') of
             Inl x \<Rightarrow> Inl (x, metrics)
           | Inr ontology_content \<Rightarrow>
               if benchmark
               then
                 (case and_then (py_len ontology_content) (\<lambda>n.
                       and_then (encode_len ontology_content) (\<lambda>b. Inr (n, b))) of
                    Inl x \<Rightarrow> Inl (x, metrics)
                  | Inr (n, b) \<Rightarrow>
                      (case ollamaTest_token_info e response
                              (dict_update metrics
                                 [(''generation_time_seconds'',
                                     PFloat (py_round (t_end e - t_start e) 3)),
                                  (''output_size_chars'', PInt (int n)),
                                  (''output_size_kb'', PFloat (real b / 1024)),
                                  (''success'', PBool True),
                                  (''error'', PNone)]) of
                         Inl xm \<Rightarrow> Inl xm
                       | Inr metrics' \<Rightarrow> Inr (Bench ontology_content metrics')))
               else Inr (Plain ontology_content)))"

text \<open>\<^verbatim>\<open>generate_ontology_with_ollama\<close>: every exception of the \<^verbatim>\<open>try\<close> body is caught.\<close>

definition ollamaTest_generate_ontology_with_ollama ::
  "env \<Rightarrow> string \<Rightarrow> string \<Rightarrow> bool \<Rightarrow> (pyval, pydict) gen_result \<times> chat_call list" where
  "ollamaTest_generate_ontology_with_ollama e uml mdl benchmark =
     (let metrics = ollamaTest_initial_metrics e uml mdl;
          prompt = ollamaTest_prompt uml;
          calls = [(mdl, prompt)]
      in case ollamaTest_try_body e mdl prompt benchmark metrics of
           Inr r \<Rightarrow> (r, calls)
         | Inl (x, metrics') \<Rightarrow>
             if benchmark
             then (Bench (PStr [])
                     (dict_update metrics'
                        [(''generation_time_seconds'', PInt 0),
                         (''output_size_chars'', PInt 0),
                         (''output_size_kb'', PInt 0),
                         (''success'', PBool False),
                         (''error'', PStr (exn_str x))]),
                   calls)
             else (Plain (PStr []), calls))"

section \<open>The bare call (\<^verbatim>\<open>ontologyGenerator/models/ollama.py\<close>)\<close>

definition ollama_prompt :: "string \<Rightarrow> string" where
  "ollama_prompt uml =
     join_lines
       [''You are an expert in converting UML diagrams into OWL ontologies.'',
        ''    Given the following UML diagram XMI, generate a corresponding OWL ontology in Turtle format.'',
        [],
        ''    UML XMI:'']
     @ ''    '' @ uml @ nl
     @ join_lines
       [''    '',
        ''    Respond only with the OWL ontology in Turtle format, without any additional explanations.'',
        [],
        ''    Args:'',
        ''        uml (str): The UML diagram in XMI format.'',
        ''        model (str): The Ollama model to use for generation.'',
        [],
        ''    Respond ONLY with the OWL ontology in Turtle format in a JSON file:'',
        ''    '']
     @ ''    ''"

text \<open>\<^verbatim>\<open>response['choices'][0]['message']['content']\<close>\<close>

definition choices_content :: "pyval \<Rightarrow> exn + pyval" where
  "choices_content response =
     and_then (and_then (and_then (getitem_str response ''choices'')
       (\<lambda>cs. getitem_int cs 0))
       (\<lambda>c. getitem_str c ''message''))
       (\<lambda>m. getitem_str m ''content'')"

definition ollama_generate_ontology_with_ollama ::
  "env \<Rightarrow> string \<Rightarrow> string \<Rightarrow> pyval \<times> chat_call list" where
  "ollama_generate_ontology_with_ollama e uml mdl =
     (let prompt = ollama_prompt uml;
          calls = [(mdl, prompt)]
      in case and_then (chat e mdl prompt) choices_content of
           Inr content \<Rightarrow> (content, calls)
         | Inl x \<Rightarrow> (PStr [], calls))"

section \<open>The results log\<close>

text \<open>
  The log file as a save call finds it: absent; present but not to be opened for reading
  (with the message of the \<^verbatim>\<open>OSError\<close>); present with a text that \<^verbatim>\<open>json.load\<close> rejects (with
  the message of the decoding error); or present with the JSON text of a value, which
  \<^verbatim>\<open>json.load\<close> returns and \<^verbatim>\<open>json.dump\<close> writes.
\<close>

datatype file_state = Missing | Unreadable string | Garbage string | Doc pyval

text \<open>
  How writing fails, if it does. \<open>OpenFails msg\<close>: the exception with message \<open>msg\<close> is
  raised before a byte of the written file is touched (the file, or its directory, does
  not admit opening it for writing; in the class-based version also: the final rename
  fails). \<open>DumpFails msg left\<close>: the file was opened with mode \<^verbatim>\<open>'w'\<close>, which empties it, and
  the exception with message \<open>msg\<close> is raised while \<^verbatim>\<open>json.dump\<close> writes or the file is closed
  (a full disk); the written file is left empty or with the beginning of the JSON text,
  which \<^verbatim>\<open>json.load\<close> rejects with message \<open>left\<close>.
\<close>

datatype write_fault = OpenFails string | DumpFails string string


text \<open>
  The state of the disk around the log: its path, its state, whether the temporary file
  of the class-based version, \<^verbatim>\<open>output_file.with_suffix('.tmp')\<close>, is the log file itself
  (the log's own suffix is \<^verbatim>\<open>.tmp\<close>), and how writing fails.
\<close>

record disk =
  output_file :: string
  content :: file_state
  temp_is_log :: bool
  write_error :: "write_fault option"

text \<open>\<^verbatim>\<open>with open(output_file, 'r') as f: results = json.load(f)\<close>\<close>

definition read_json :: "disk \<Rightarrow> exn + pyval" where
  "read_json d =
     (case content d of
        Missing \<Rightarrow>
          Inl (Exn FileNotFoundError
                (''[Errno 2] No such file or directory: '' @ quoted (output_file d)))
      | Unreadable msg \<Rightarrow> Inl (Exn OSError msg)
      | Garbage msg \<Rightarrow> Inl (Exn JSONDecodeError msg)
      | Doc v \<Rightarrow> Inr v)"

text \<open>\<^verbatim>\<open>results.append(x)\<close>: only a \<^verbatim>\<open>list\<close> has the method.\<close>

fun list_append :: "pyval \<Rightarrow> pyval \<Rightarrow> exn + pyval" where
  "list_append (PList xs) x = Inr (PList (xs @ [x]))"
| "list_append v x =
     Inl (Exn AttributeError
       (quoted (type_name v) @ '' object has no attribute '' @ quoted ''append''))"

text \<open>
  Writing the list into the log itself, as the function version does
  (\<^verbatim>\<open>with open(output_file, "w") as f: json.dump(results, f, indent=2)\<close>): the result is the
  disk with the new list in the log, or the exception together with the disk as the
  failed write leaves it. A failure to open leaves the log as it was; a failure while
  writing leaves it damaged.
\<close>

definition write_in_place :: "disk \<Rightarrow> pyval \<Rightarrow> (exn \<times> disk) + disk" where
  "write_in_place d results =
     (case write_error d of
        None \<Rightarrow> Inr (d\<lparr>content := Doc results\<rparr>)
      | Some (OpenFails msg) \<Rightarrow> Inl (Exn OSError msg, d)
      | Some (DumpFails msg left) \<Rightarrow> Inl (Exn OSError msg, d\<lparr>content := Garbage left\<rparr>))"




text \<open>The first half of \<^verbatim>\<open>save_benchmark_results\<close> of
  \<^verbatim>\<open>ontologyGenerator/models/ollamaTest.py\<close>: the inner \<^verbatim>\<open>try\<close> turns a missing file into the
  empty list.\<close>

definition ollamaTest_load_and_append :: "disk \<Rightarrow> pyval \<Rightarrow> exn + pyval" where
  "ollamaTest_load_and_append d record =
     and_then
       (case read_json d of
          Inl x \<Rightarrow> if exn_class_of x = FileNotFoundError then Inr (PList []) else Inl x
        | Inr results \<Rightarrow> Inr results)
       (\<lambda>results. list_append results record)"

text \<open>\<^verbatim>\<open>save_benchmark_results\<close> of that file: the outer \<^verbatim>\<open>try\<close> catches every exception and
  the function returns.\<close>

definition ollamaTest_save_benchmark_results :: "disk \<Rightarrow> pydict \<Rightarrow> (exn + unit) \<times> disk" where
  "ollamaTest_save_benchmark_results d metrics =
     (case ollamaTest_load_and_append d (PDict metrics) of
        Inl x \<Rightarrow> (Inr (), d)
      | Inr results \<Rightarrow>
          (case write_in_place d results of
             Inr d' \<Rightarrow> (Inr (), d')
           | Inl (x, d') \<Rightarrow> (Inr (), d')))"



section \<open>Named values used in the statements below\<close>

text \<open>The record \<^verbatim>\<open>_extract_metrics\<close> builds for an attempt that failed with message \<open>msg\<close>:
  no output, no reply, the sizes of the input and the measured duration.\<close>

definition failed_metrics :: "env \<Rightarrow> string \<Rightarrow> string \<Rightarrow> string \<Rightarrow> BenchmarkMetrics" where
  "failed_metrics e mdl uml msg =
     \<lparr>model = mdl, timestamp = now_iso e,
      input_size_chars = length uml,
      input_size_kb = py_round (real (utf8_len uml) / 1024) 3,
      generation_time_seconds = py_round (t_end e - t_start e) 3,
      output_size_chars = 0, output_size_kb = 0,
      success = False, error = Some msg,
      tokens_generated = PNone, tokens_per_second = None\<rparr>"

text \<open>The dictionary the \<^verbatim>\<open>except\<close> clause of the function with manual benchmarking leaves
  when the chat call itself raised \<open>x\<close>.\<close>

definition ollamaTest_failed_metrics :: "env \<Rightarrow> string \<Rightarrow> string \<Rightarrow> exn \<Rightarrow> pydict" where
  "ollamaTest_failed_metrics e uml mdl x =
     ollamaTest_initial_metrics e uml mdl @
     [(''generation_time_seconds'', PInt 0),
      (''output_size_chars'', PInt 0),
      (''output_size_kb'', PInt 0),
      (''success'', PBool False),
      (''error'', PStr (exn_str x))]"

text \<open>The dictionary after the \<^verbatim>\<open>try\<close> body of that function stored the metrics of a
  successful call that returned the text \<open>t\<close>, before it looks at the token count.\<close>

definition ollamaTest_success_metrics :: "env \<Rightarrow> string \<Rightarrow> string \<Rightarrow> string \<Rightarrow> pydict" where
  "ollamaTest_success_metrics e uml mdl t =
     ollamaTest_initial_metrics e uml mdl @
     [(''generation_time_seconds'', PFloat (py_round (t_end e - t_start e) 3)),
      (''output_size_chars'', PInt (int (length t))),
      (''output_size_kb'', PFloat (real (utf8_len t) / 1024)),
      (''success'', PBool True),
      (''error'', PNone)]"

text \<open>A reply of the shape the two later versions read: a \<^verbatim>\<open>message\<close> with its \<^verbatim>\<open>content\<close>,
  and further top-level keys.\<close>

definition example_reply :: "string \<Rightarrow> pydict \<Rightarrow> pyval" where
  "example_reply t extra =
     PDict ((''message'', PDict [(''role'', PStr ''assistant''), (''content'', PStr t)]) # extra)"

text \<open>Example environments: a reply of 13 characters with 26 tokens after 2 seconds; a
  reply padded with blanks and no token count; a reply with a token count of 0; a client
  that times out after 5 seconds with an empty message.\<close>

definition example_env :: env where
  "example_env =
     \<lparr>chat = (\<lambda>mdl prompt. Inr (example_reply ''ontology-text'' [(''eval_count'', PInt 26)])),
      t_start = 1, t_end = 3, now_iso = ''2025-01-01T00:00:00''\<rparr>"

definition example_env_padded :: env where
  "example_env_padded =
     \<lparr>chat = (\<lambda>mdl prompt. Inr (example_reply ''  ontology-text '' [])),
      t_start = 1, t_end = 3, now_iso = ''2025-01-01T00:00:00''\<rparr>"

definition example_env_zero_tokens :: env where
  "example_env_zero_tokens =
     \<lparr>chat = (\<lambda>mdl prompt. Inr (example_reply ''ontology-text'' [(''eval_count'', PInt 0)])),
      t_start = 1, t_end = 3, now_iso = ''2025-01-01T00:00:00''\<rparr>"

definition example_env_timeout :: env where
  "example_env_timeout =
     \<lparr>chat = (\<lambda>mdl prompt. Inl (Exn (OtherError ''ReadTimeout'') [])),
      t_start = 1, t_end = 6, now_iso = ''2025-01-01T00:00:00''\<rparr>"










section \<open>Auxiliary facts\<close>

subsection \<open>Blank input\<close>

lemma strip_Nil_iff: "strip s = [] \<longleftrightarrow> (\<forall>c\<in>set s. py_isspace c)"
proof
  assume "strip s = []"
  then have all: "\<forall>c\<in>set (dropWhile py_isspace s). py_isspace c"
    by (simp add: strip_def dropWhile_eq_Nil_conv)
  have "dropWhile py_isspace s = []"
  proof (rule ccontr)
    assume ne: "dropWhile py_isspace s \<noteq> []"
    then have "\<not> py_isspace (hd (dropWhile py_isspace s))"
      by (rule hd_dropWhile)
    moreover from ne have "hd (dropWhile py_isspace s) \<in> set (dropWhile py_isspace s)"
      by simp
    ultimately show False using all by blast
  qed
  then show "\<forall>c\<in>set s. py_isspace c"
    by (simp add: dropWhile_eq_Nil_conv)
next
  assume "\<forall>c\<in>set s. py_isspace c"
  then have "dropWhile py_isspace s = []"
    by (metis dropWhile_eq_Nil_conv)
  then show "strip s = []"
    unfolding strip_def by (simp del: dropWhile_eq_Nil_conv)
qed

lemma blank_iff: "(uml = [] \<or> strip uml = []) \<longleftrightarrow> (\<forall>c\<in>set uml. py_isspace c)"
  by (auto simp: strip_Nil_iff)

lemma generate_blank:
  "uml = [] \<or> strip uml = [] \<Longrightarrow>
     generate e mdl uml b = (Inl (Exn ValueError ''UML input cannot be empty''), [])"
  by (simp add: generate_def)

subsection \<open>Rounding\<close>

lemma round_half_even_bound: "\<bar>of_int (round_half_even x) - x\<bar> \<le> 1 / 2"
proof -
  have "of_int \<lfloor>x\<rfloor> \<le> x" and "x < of_int \<lfloor>x\<rfloor> + 1"
    by linarith+
  then show ?thesis
    by (auto simp: round_half_even_def Let_def)
qed

lemma py_round_bound: "\<bar>py_round x n - x\<bar> \<le> 1 / (2 * 10 ^ n)"
proof -
  have "py_round x n - x = (of_int (round_half_even (x * 10 ^ n)) - x * 10 ^ n) / 10 ^ n"
    by (simp add: py_round_def diff_divide_distrib)
  then have "\<bar>py_round x n - x\<bar>
      = \<bar>of_int (round_half_even (x * 10 ^ n)) - x * 10 ^ n\<bar> / 10 ^ n"
    by simp
  also have "\<dots> \<le> (1 / 2) / 10 ^ n"
    by (rule divide_right_mono [OF round_half_even_bound]) simp
  finally show ?thesis by simp
qed

lemma float_of_int_small: "\<bar>i\<bar> < 2 ^ 53 \<Longrightarrow> float_of_int i = Inr (of_int i)"
proof -
  have "(2::int) ^ 53 \<le> 2 ^ 1024 - 2 ^ 970" by simp
  then show "\<bar>i\<bar> < 2 ^ 53 \<Longrightarrow> float_of_int i = Inr (of_int i)"
    by (simp add: float_of_int_def)
qed

lemma py_round_0: "py_round 0 n = 0"
  by (simp add: py_round_def round_half_even_def)

subsection \<open>The \<^verbatim>\<open>try\<close> statement of the class-based version\<close>


lemma generate_try_failure:
  assumes "and_then (chat e mdl prompt) reply_content = Inl x"
  shows "generate_try e mdl prompt =
           \<lparr>st_ontology_content = [], st_response_data = None,
            st_error_msg = Some (except_message x),
            st_pending = Some (Exn RuntimeError (except_message x))\<rparr>"
proof (cases "chat e mdl prompt")
  case (Inl y)
  with assms show ?thesis by (simp add: generate_try_def Let_def)
next
  case (Inr r)
  with assms have "reply_content r = Inl x" by simp
  with Inr show ?thesis by (simp add: generate_try_def Let_def)
qed

lemma generate_try_success:
  assumes "chat e mdl prompt = Inr r" and "reply_content r = Inr t"
  shows "generate_try e mdl prompt =
           \<lparr>st_ontology_content = t, st_response_data = Some r,
            st_error_msg = None, st_pending = None\<rparr>"
  using assms by (simp add: generate_try_def)


subsection \<open>Metrics of the class-based version\<close>

lemma extract_metrics_fields:
  assumes "extract_metrics mdl now uml t dur resp err = Inr m"
  shows "model m = mdl \<and> timestamp m = now
       \<and> input_size_chars m = length uml
       \<and> input_size_kb m = py_round (real (utf8_len uml) / 1024) 3
       \<and> generation_time_seconds m = py_round dur 3
       \<and> output_size_chars m = length t
       \<and> output_size_kb m = py_round (real (utf8_len t) / 1024) 3
       \<and> success m = (err = None) \<and> error m = err
       \<and> tokens_of resp = Inr (tokens_generated m)
       \<and> tokens_per_sec_of (tokens_generated m) dur = Inr (tokens_per_second m)"
proof (cases "tokens_of resp")
  case (Inl x)
  with assms show ?thesis by (simp add: extract_metrics_def calculate_size_def)
next
  case tok: (Inr tokens)
  show ?thesis
  proof (cases "tokens_per_sec_of tokens dur")
    case (Inl x)
    with assms tok show ?thesis by (simp add: extract_metrics_def calculate_size_def)
  next
    case (Inr tps)
    with assms tok show ?thesis by (auto simp: extract_metrics_def calculate_size_def)
  qed
qed

lemma extract_metrics_failure:
  "extract_metrics mdl (now_iso e) uml [] (t_end e - t_start e) None (Some msg)
     = Inr (failed_metrics e mdl uml msg)"
  by (simp add: extract_metrics_def calculate_size_def tokens_of_def tokens_per_sec_of_def
      failed_metrics_def utf8_len_def py_round_0)

lemma generate_bench_result:
  assumes "fst (generate e mdl uml True) = Inr r"
  shows "\<exists>m. r = Bench (st_ontology_content (generate_try e mdl (create_prompt uml))) m
           \<and> extract_metrics mdl (now_iso e) uml
                (st_ontology_content (generate_try e mdl (create_prompt uml)))
                (t_end e - t_start e)
                (st_response_data (generate_try e mdl (create_prompt uml)))
                (st_error_msg (generate_try e mdl (create_prompt uml))) = Inr m"
  using assms
  by (auto simp: generate_def Let_def split: if_splits sum.splits)

lemma generate_failure_benchmark:
  assumes "uml \<noteq> []" and "strip uml \<noteq> []"
    and "and_then (chat e mdl (create_prompt uml)) reply_content = Inl x"
  shows "generate e mdl uml True =
           (Inr (Bench [] (failed_metrics e mdl uml (except_message x))),
            [(mdl, create_prompt uml)])"
  using assms(1,2) generate_try_failure [OF assms(3)]
  by (simp add: generate_def Let_def extract_metrics_failure)

lemma generate_failure_plain:
  assumes "uml \<noteq> []" and "strip uml \<noteq> []"
    and "and_then (chat e mdl (create_prompt uml)) reply_content = Inl x"
  shows "generate e mdl uml False =
           (Inl (Exn RuntimeError (except_message x)), [(mdl, create_prompt uml)])"
  using assms(1,2) generate_try_failure [OF assms(3)]
  by (simp add: generate_def Let_def)

lemma V1_wrapper_blank:
  "uml = [] \<or> strip uml = [] \<Longrightarrow>
     V1_generate_ontology_with_ollama e uml mdl b
       = (Inl (Exn ValueError ''UML input cannot be empty''), [])"
  by (simp add: V1_generate_ontology_with_ollama_def generate_blank)

subsection \<open>Saving\<close>















lemma ollamaTest_save_load_failure:
  assumes "ollamaTest_load_and_append d (PDict dm) = Inl c"
  shows "ollamaTest_save_benchmark_results d dm = (Inr (), d)"
  using assms by (simp add: ollamaTest_save_benchmark_results_def)






subsection \<open>The function with manual benchmarking\<close>

lemma map_of_dict_set: "map_of (dict_set d k v) k' = (if k' = k then Some v else map_of d k')"
  by (induction d) auto

lemma ollamaTest_calls:
  "snd (ollamaTest_generate_ontology_with_ollama e uml mdl b) = [(mdl, ollamaTest_prompt uml)]"
  by (simp add: ollamaTest_generate_ontology_with_ollama_def Let_def split: sum.split prod.split)

lemma ollama_calls:
  "snd (ollama_generate_ontology_with_ollama e uml mdl) = [(mdl, ollama_prompt uml)]"
  by (simp add: ollama_generate_ontology_with_ollama_def Let_def split: sum.split)

lemma ollamaTest_failed_update:
  "dict_update (ollamaTest_initial_metrics e uml mdl)
     [(''generation_time_seconds'', PInt 0), (''output_size_chars'', PInt 0),
      (''output_size_kb'', PInt 0), (''success'', PBool False), (''error'', PStr s)]
   = ollamaTest_initial_metrics e uml mdl @
     [(''generation_time_seconds'', PInt 0), (''output_size_chars'', PInt 0),
      (''output_size_kb'', PInt 0), (''success'', PBool False), (''error'', PStr s)]"
  by (simp add: ollamaTest_initial_metrics_def)

lemma ollamaTest_chat_failure:
  assumes "chat e mdl (ollamaTest_prompt uml) = Inl x"
  shows "ollamaTest_generate_ontology_with_ollama e uml mdl True =
           (Bench (PStr []) (ollamaTest_failed_metrics e uml mdl x), [(mdl, ollamaTest_prompt uml)])"
  using assms
  by (simp add: ollamaTest_generate_ontology_with_ollama_def Let_def ollamaTest_try_body_def
      ollamaTest_failed_update ollamaTest_failed_metrics_def del: dict_update.simps)

lemma ollamaTest_success_update:
  "dict_update (ollamaTest_initial_metrics e uml mdl)
     [(''generation_time_seconds'', PFloat g), (''output_size_chars'', PInt n),
      (''output_size_kb'', PFloat k), (''success'', PBool True), (''error'', PNone)]
   = ollamaTest_initial_metrics e uml mdl @
     [(''generation_time_seconds'', PFloat g), (''output_size_chars'', PInt n),
      (''output_size_kb'', PFloat k), (''success'', PBool True), (''error'', PNone)]"
  by (simp add: ollamaTest_initial_metrics_def)

lemma len_encode_str:
  "and_then (py_len v) (\<lambda>n. and_then (encode_len v) (\<lambda>b. Inr (n, b))) = Inr (n, b)
     \<Longrightarrow> \<exists>t. v = PStr t \<and> n = length t \<and> b = utf8_len t"
  by (cases v) auto

lemma failure_update_lookup:
  "map_of (dict_update m
     [(''generation_time_seconds'', PInt 0), (''output_size_chars'', PInt 0),
      (''output_size_kb'', PInt 0), (''success'', PBool False), (''error'', PStr s)]) k
   = (if k = ''error'' then Some (PStr s)
      else if k = ''success'' then Some (PBool False)
      else if k = ''output_size_kb'' then Some (PInt 0)
      else if k = ''output_size_chars'' then Some (PInt 0)
      else if k = ''generation_time_seconds'' then Some (PInt 0)
      else map_of m k)"
  by (simp add: map_of_dict_set)

lemma token_info_lookup:
  assumes "ollamaTest_token_info e response m = Inr d"
    and "k \<noteq> ''tokens_generated''" and "k \<noteq> ''tokens_per_second''"
  shows "map_of d k = map_of m k"
  using assms
  by (auto simp: ollamaTest_token_info_def Let_def map_of_dict_set
      split: sum.splits bool.splits)

lemma ollamaTest_bench_cases:
  assumes "fst (ollamaTest_generate_ontology_with_ollama e uml mdl True) = Bench v d"
  shows "(\<exists>response t. chat e mdl (ollamaTest_prompt uml) = Inr response
            \<and> and_then (getitem_str response ''message'') (\<lambda>m. getitem_str m ''content'')
                = Inr (PStr t)
            \<and> v = PStr t
            \<and> ollamaTest_token_info e response (ollamaTest_success_metrics e uml mdl t) = Inr d)
       \<or> (\<exists>x m. v = PStr [] \<and> d = dict_update m
             [(''generation_time_seconds'', PInt 0), (''output_size_chars'', PInt 0),
              (''output_size_kb'', PInt 0), (''success'', PBool False),
              (''error'', PStr (exn_str x))])"
proof (cases "ollamaTest_try_body e mdl (ollamaTest_prompt uml) True
                (ollamaTest_initial_metrics e uml mdl)")
  case (Inl xm)
  then obtain x m where "xm = (x, m)" by (cases xm)
  with Inl assms show ?thesis
    by (auto simp: ollamaTest_generate_ontology_with_ollama_def Let_def)
next
  case (Inr r)
  with assms have r: "r = Bench v d"
    by (simp add: ollamaTest_generate_ontology_with_ollama_def Let_def)
  from Inr obtain response where c: "chat e mdl (ollamaTest_prompt uml) = Inr response"
    by (cases "chat e mdl (ollamaTest_prompt uml)") (auto simp: ollamaTest_try_body_def)
  from Inr c obtain content where
    g: "and_then (getitem_str response ''message'') (\<lambda>m. getitem_str m ''content'') = Inr content"
    by (cases "and_then (getitem_str response ''message'') (\<lambda>m. getitem_str m ''content'')")
      (auto simp: ollamaTest_try_body_def)
  from Inr c g obtain n b where
    l: "and_then (py_len content) (\<lambda>n. and_then (encode_len content) (\<lambda>b. Inr (n, b))) = Inr (n, b)"
    by (cases "and_then (py_len content) (\<lambda>n. and_then (encode_len content) (\<lambda>b. Inr (n, b)))")
      (auto simp: ollamaTest_try_body_def)
  then obtain t where t: "content = PStr t" "n = length t" "b = utf8_len t"
    using len_encode_str by blast
  from Inr r c g l t have
    "v = PStr t \<and> ollamaTest_token_info e response (ollamaTest_success_metrics e uml mdl t) = Inr d"
    by (auto simp: ollamaTest_try_body_def ollamaTest_success_update ollamaTest_success_metrics_def
        simp del: dict_update.simps split: sum.splits)
  with c g t show ?thesis by blast
qed

subsection \<open>Records of the two later versions\<close>



lemma generate_sizes:
  assumes "fst (generate e mdl uml True) = Inr (Bench t m)"
  shows "output_size_chars m = length t
       \<and> output_size_kb m = py_round (real (utf8_len t) / 1024) 3
       \<and> input_size_chars m = length uml
       \<and> input_size_kb m = py_round (real (utf8_len uml) / 1024) 3"
proof -
  from generate_bench_result [OF assms] obtain resp err where
    "extract_metrics mdl (now_iso e) uml t (t_end e - t_start e) resp err = Inr m"
    by auto
  from extract_metrics_fields [OF this] show ?thesis by simp
qed

lemma py_round_3_close: "\<bar>py_round x 3 - x\<bar> \<le> 1 / 2000"
  using py_round_bound [of x 3] by simp

lemma ollamaTest_success_sizes:
  assumes "fst (ollamaTest_generate_ontology_with_ollama e uml mdl True) = Bench v d"
    and "map_of d ''success'' = Some (PBool True)"
  shows "\<exists>t. v = PStr t
           \<and> map_of d ''output_size_chars'' = Some (PInt (int (length t)))
           \<and> map_of d ''output_size_kb'' = Some (PFloat (real (utf8_len t) / 1024))
           \<and> map_of d ''input_size_chars'' = Some (PInt (int (length uml)))
           \<and> map_of d ''input_size_kb'' = Some (PFloat (real (utf8_len uml) / 1024))"
  using ollamaTest_bench_cases [OF assms(1)]
proof (elim disjE exE conjE)
  fix response t
  assume v: "v = PStr t"
    and ti: "ollamaTest_token_info e response (ollamaTest_success_metrics e uml mdl t) = Inr d"
  have "\<And>k. k \<noteq> ''tokens_generated'' \<Longrightarrow> k \<noteq> ''tokens_per_second'' \<Longrightarrow>
      map_of d k = map_of (ollamaTest_success_metrics e uml mdl t) k"
    using ti by (rule token_info_lookup)
  then have "map_of d ''output_size_chars'' = Some (PInt (int (length t)))"
    and "map_of d ''output_size_kb'' = Some (PFloat (real (utf8_len t) / 1024))"
    and "map_of d ''input_size_chars'' = Some (PInt (int (length uml)))"
    and "map_of d ''input_size_kb'' = Some (PFloat (real (utf8_len uml) / 1024))"
    by (simp_all add: ollamaTest_success_metrics_def ollamaTest_initial_metrics_def)
  with v show ?thesis by blast
next
  fix x m
  assume "d = dict_update m
             [(''generation_time_seconds'', PInt 0), (''output_size_chars'', PInt 0),
              (''output_size_kb'', PInt 0), (''success'', PBool False),
              (''error'', PStr (exn_str x))]"
  then have "map_of d ''success'' = Some (PBool False)"
    by (simp add: failure_update_lookup del: dict_update.simps)
  with assms(2) show ?thesis by simp
qed

lemma extract_metrics_well_formed:
  assumes "kvs \<noteq> []"
    and "map_of kvs ''eval_count'' = None
         \<or> (\<exists>n. map_of kvs ''eval_count'' = Some (PInt n) \<and> \<bar>n\<bar> < 2 ^ 1024 - 2 ^ 970)"
  shows "\<exists>m. extract_metrics mdl now uml t dur (Some (PDict kvs)) None = Inr m"
  using assms
  by (auto simp: extract_metrics_def calculate_size_def tokens_of_def tokens_per_sec_of_def
      div_float_def float_of_int_def)

lemma generate_well_formed_plain:
  assumes "uml \<noteq> []" and "strip uml \<noteq> []"
    and "chat e mdl (create_prompt uml) = Inr r" and "reply_content r = Inr t"
  shows "fst (generate e mdl uml False) = Inr (Plain t)"
  using assms(1,2) generate_try_success [OF assms(3,4)]
  by (simp add: generate_def Let_def)

lemma generate_well_formed_bench:
  assumes "uml \<noteq> []" and "strip uml \<noteq> []"
    and "chat e mdl (create_prompt uml) = Inr r" and "reply_content r = Inr t"
    and "extract_metrics mdl (now_iso e) uml t (t_end e - t_start e) (Some r) None = Inr m"
  shows "fst (generate e mdl uml True) = Inr (Bench t m)"
  using assms(1,2,5) generate_try_success [OF assms(3,4)]
  by (simp add: generate_def Let_def)

lemma ollamaTest_plain:
  assumes "chat e mdl (ollamaTest_prompt uml) = Inr r"
    and "and_then (getitem_str r ''message'') (\<lambda>m. getitem_str m ''content'') = Inr v"
  shows "fst (ollamaTest_generate_ontology_with_ollama e uml mdl False) = Plain v"
  using assms
  by (simp add: ollamaTest_generate_ontology_with_ollama_def ollamaTest_try_body_def Let_def)

lemma ollamaTest_bench_no_tokens:
  assumes "chat e mdl (ollamaTest_prompt uml) = Inr (PDict kvs)"
    and "and_then (getitem_str (PDict kvs) ''message'') (\<lambda>m. getitem_str m ''content'')
           = Inr (PStr c)"
    and "map_of kvs ''eval_count'' = None"
  shows "fst (ollamaTest_generate_ontology_with_ollama e uml mdl True)
           = Bench (PStr c) (ollamaTest_success_metrics e uml mdl c)"
  using assms
  by (simp add: ollamaTest_generate_ontology_with_ollama_def ollamaTest_try_body_def Let_def
      ollamaTest_token_info_def ollamaTest_success_update ollamaTest_success_metrics_def
      del: dict_update.simps)
lemma tokens_per_sec_of_present:
  assumes "tokens_per_sec_of tokens dur = Inr tps"
  shows "tps \<noteq> None \<longleftrightarrow> truthy tokens \<and> 0 < dur"
  using assms
  by (cases "truediv tokens dur")
    (auto simp: tokens_per_sec_of_def div_float_def split: if_splits)

lemma generate_rate:
  assumes "fst (generate e mdl uml True) = Inr (Bench t m)"
  shows "tokens_per_second m \<noteq> None
           \<longleftrightarrow> truthy (tokens_generated m) \<and> 0 < t_end e - t_start e"
proof -
  from generate_bench_result [OF assms] obtain resp err where
    "extract_metrics mdl (now_iso e) uml t (t_end e - t_start e) resp err = Inr m"
    by auto
  from extract_metrics_fields [OF this]
  have "tokens_per_sec_of (tokens_generated m) (t_end e - t_start e)
          = Inr (tokens_per_second m)"
    by simp
  from tokens_per_sec_of_present [OF this] show ?thesis by simp
qed

lemma ollamaTest_bench_int_tokens:
  assumes "chat e mdl (ollamaTest_prompt uml) = Inr (PDict kvs)"
    and "and_then (getitem_str (PDict kvs) ''message'') (\<lambda>m. getitem_str m ''content'')
           = Inr (PStr c)"
    and "map_of kvs ''eval_count'' = Some (PInt n)"
    and "\<bar>n\<bar> < 2 ^ 1024 - 2 ^ 970" and "t_end e \<noteq> t_start e"
  shows "\<exists>d. fst (ollamaTest_generate_ontology_with_ollama e uml mdl True) = Bench (PStr c) d"
  using assms
  by (simp add: ollamaTest_generate_ontology_with_ollama_def ollamaTest_try_body_def Let_def
      ollamaTest_token_info_def float_of_int_def div_float_def del: dict_update.simps)

section \<open>Properties of the specification\<close>







text \<open>
  C3, as stated: every empty or whitespace-only UML input makes the generation operation
  fail with a validation error before any chat call. The function
  \<^verbatim>\<open>generate_ontology_with_ollama\<close> of \<^verbatim>\<open>ontologyGenerator/models/ollamaTest.py\<close> has no such
  check: on the empty input it makes its chat call and returns the reply.
\<close>

theorem C3_counterexample:
  "snd (ollamaTest_generate_ontology_with_ollama example_env [] ''llama3.1:8b'' True)
     = [(''llama3.1:8b'', ollamaTest_prompt [])]
   \<and> text_of (fst (ollamaTest_generate_ontology_with_ollama example_env [] ''llama3.1:8b'' True))
     = PStr ''ontology-text''"
  by (simp add: ollamaTest_generate_ontology_with_ollama_def ollamaTest_try_body_def
      ollamaTest_token_info_def example_env_def example_reply_def Let_def div_float_def
      float_of_int_small)

text \<open>
  C3, amended. In the class-based version, \<^verbatim>\<open>OntologyGenerator.generate\<close> and its legacy wrapper
  raise the \<^verbatim>\<open>ValueError\<close> on every input that is empty or consists of whitespace only, and
  make no chat call. The two earlier functions validate nothing: on every input, blank or
  not, each makes exactly one chat call.
\<close>

theorem C3_blank_input_rejected_by_class_based_version:
  "((\<forall>c\<in>set uml. py_isspace c) \<longrightarrow>
       generate e mdl uml b = (Inl (Exn ValueError ''UML input cannot be empty''), [])
     \<and> V1_generate_ontology_with_ollama e uml mdl b
         = (Inl (Exn ValueError ''UML input cannot be empty''), []))
   \<and> snd (ollamaTest_generate_ontology_with_ollama e uml mdl b) = [(mdl, ollamaTest_prompt uml)]
   \<and> snd (ollama_generate_ontology_with_ollama e uml mdl) = [(mdl, ollama_prompt uml)]"
  using blank_iff [of uml]
  by (simp add: generate_blank V1_wrapper_blank ollamaTest_calls ollama_calls)

theorem C3_witness:
  "strip [CHR 0x20, CHR 0x09, CHR 0x0A] = []
   \<and> generate example_env ''llama3.1:8b'' [CHR 0x20, CHR 0x09, CHR 0x0A] True
       = (Inl (Exn ValueError ''UML input cannot be empty''), [])
   \<and> generate example_env ''llama3.1:8b'' [] True
       = (Inl (Exn ValueError ''UML input cannot be empty''), [])
   \<and> snd (ollamaTest_generate_ontology_with_ollama example_env [] ''llama3.1:8b'' True)
       = [(''llama3.1:8b'', ollamaTest_prompt [])]"
proof -
  have ws: "\<forall>c\<in>set [CHR 0x20, CHR 0x09, CHR 0x0A]. py_isspace c"
    by (simp add: py_isspace_def)
  have s: "strip [CHR 0x20, CHR 0x09, CHR 0x0A] = []"
    using ws by (simp only: strip_Nil_iff)
  show ?thesis
    using C3_blank_input_rejected_by_class_based_version
        [of "[CHR 0x20, CHR 0x09, CHR 0x0A]" example_env "''llama3.1:8b''" True]
      C3_blank_input_rejected_by_class_based_version [of "[]" example_env "''llama3.1:8b''" True]
      ws s
    by simp
qed

text \<open>
  C4. A record is to hold \<^verbatim>\<open>tokens_per_second\<close> exactly when it holds \<^verbatim>\<open>tokens_generated\<close> and
  the duration is positive. The class-based version tests the truth value of the token
  count: for a reply whose \<^verbatim>\<open>eval_count\<close> is 0, after 2 seconds, its record holds
  \<^verbatim>\<open>tokens_generated = 0\<close> and no \<^verbatim>\<open>tokens_per_second\<close>. On the same reply the function with manual
  benchmarking stores the rate 0.0. (In general the class-based record holds a rate exactly
  when the token count is true as a Python value and the duration is positive: lemma
  \<open>generate_rate\<close>.)
\<close>

theorem C4_zero_token_count_has_no_rate:
  "fst (generate example_env_zero_tokens ''llama3.1:8b'' ''<model/>'' True) =
     Inr (Bench ''ontology-text''
       \<lparr>model = ''llama3.1:8b'', timestamp = ''2025-01-01T00:00:00'',
        input_size_chars = 8, input_size_kb = 1 / 125,
        generation_time_seconds = 2,
        output_size_chars = 13, output_size_kb = 13 / 1000,
        success = True, error = None,
        tokens_generated = PInt 0, tokens_per_second = None\<rparr>)
   \<and> map_option (\<lambda>d. map_of d ''tokens_per_second'')
        (metrics_of (fst (ollamaTest_generate_ontology_with_ollama
           example_env_zero_tokens ''<model/>'' ''llama3.1:8b'' True)))
     = Some (Some (PFloat 0))"
proof -
  have r1: "py_round (real (utf8_len ''<model/>'') / 1024) 3 = 1 / 125"
    by (simp add: utf8_len_def py_round_def round_half_even_def)
  have r2: "py_round (real (utf8_len ''ontology-text'') / 1024) 3 = 13 / 1000"
    by (simp add: utf8_len_def py_round_def round_half_even_def)
  have r3: "py_round 2 3 = 2" "py_round 0 2 = 0"
    by (simp_all add: py_round_def round_half_even_def)
  have s: "strip ''<model/>'' = ''<model/>''" "strip ''ontology-text'' = ''ontology-text''"
    by (simp_all add: strip_def py_isspace_def)
  have v1: "fst (generate example_env_zero_tokens ''llama3.1:8b'' ''<model/>'' True) =
     Inr (Bench ''ontology-text''
       \<lparr>model = ''llama3.1:8b'', timestamp = ''2025-01-01T00:00:00'',
        input_size_chars = 8, input_size_kb = 1 / 125,
        generation_time_seconds = 2,
        output_size_chars = 13, output_size_kb = 13 / 1000,
        success = True, error = None,
        tokens_generated = PInt 0, tokens_per_second = None\<rparr>)"
    by (simp add: generate_def generate_try_def reply_content_def extract_metrics_def
        calculate_size_def tokens_of_def tokens_per_sec_of_def example_env_zero_tokens_def
        example_reply_def Let_def s r1 r2 r3)
  have v2: "map_option (\<lambda>d. map_of d ''tokens_per_second'')
        (metrics_of (fst (ollamaTest_generate_ontology_with_ollama
           example_env_zero_tokens ''<model/>'' ''llama3.1:8b'' True)))
     = Some (Some (PFloat 0))"
    by (simp add: ollamaTest_generate_ontology_with_ollama_def ollamaTest_try_body_def
        ollamaTest_token_info_def example_env_zero_tokens_def example_reply_def Let_def
        div_float_def float_of_int_small map_of_dict_set r3)
  from v1 v2 show ?thesis by (rule conjI)
qed




text \<open>
  C6, as stated: the record's \<^verbatim>\<open>output_size_kb\<close> is the UTF-8 length of the returned text
  divided by 1024, up to floating-point rounding. The class-based version rounds the
  quotient to 3 decimals: for the reply \<^verbatim>\<open>ontology-text\<close> of 13 bytes it records 0.013, not
  13/1024 = 0.0126953125; the two differ by 39/128000, more than 2 percent of the value.
\<close>

theorem C6_counterexample:
  "fst (generate example_env ''llama3.1:8b'' ''<model/>'' True) =
     Inr (Bench ''ontology-text''
       \<lparr>model = ''llama3.1:8b'', timestamp = ''2025-01-01T00:00:00'',
        input_size_chars = 8, input_size_kb = 1 / 125,
        generation_time_seconds = 2,
        output_size_chars = 13, output_size_kb = 13 / 1000,
        success = True, error = None,
        tokens_generated = PInt 26, tokens_per_second = Some 13\<rparr>)
   \<and> real (utf8_len ''ontology-text'') / 1024 = 13 / 1024
   \<and> (13 / 1000 - 13 / 1024 :: real) = 39 / 128000"
proof -
  have r1: "py_round (real (utf8_len ''<model/>'') / 1024) 3 = 1 / 125"
    by (simp add: utf8_len_def py_round_def round_half_even_def)
  have r2: "py_round (real (utf8_len ''ontology-text'') / 1024) 3 = 13 / 1000"
    by (simp add: utf8_len_def py_round_def round_half_even_def)
  have r3: "py_round 2 3 = 2" "py_round 13 2 = 13"
    by (simp_all add: py_round_def round_half_even_def)
  have s: "strip ''<model/>'' = ''<model/>''" "strip ''ontology-text'' = ''ontology-text''"
    by (simp_all add: strip_def py_isspace_def)
  have g: "fst (generate example_env ''llama3.1:8b'' ''<model/>'' True) =
     Inr (Bench ''ontology-text''
       \<lparr>model = ''llama3.1:8b'', timestamp = ''2025-01-01T00:00:00'',
        input_size_chars = 8, input_size_kb = 1 / 125,
        generation_time_seconds = 2,
        output_size_chars = 13, output_size_kb = 13 / 1000,
        success = True, error = None,
        tokens_generated = PInt 26, tokens_per_second = Some 13\<rparr>)"
    by (simp add: generate_def generate_try_def reply_content_def extract_metrics_def
        calculate_size_def tokens_of_def tokens_per_sec_of_def example_env_def
        example_reply_def Let_def div_float_def float_of_int_small s r1 r2 r3)
  have b: "real (utf8_len ''ontology-text'') / 1024 = 13 / 1024"
    by (simp add: utf8_len_def)
  have d: "(13 / 1000 - 13 / 1024 :: real) = 39 / 128000"
    by simp
  from g b d show ?thesis by (intro conjI)
qed

text \<open>
  C6, amended. In every record that \<^verbatim>\<open>OntologyGenerator.generate\<close> returns with a text \<open>t\<close>,
  \<^verbatim>\<open>output_size_chars\<close> is the number of characters of \<open>t\<close> and \<^verbatim>\<open>output_size_kb\<close> is the UTF-8
  length of \<open>t\<close> divided by 1024 and rounded to 3 decimals, hence within 0.0005 of the
  quotient; \<^verbatim>\<open>input_size_chars\<close> and \<^verbatim>\<open>input_size_kb\<close> are derived from the UML input in the
  same way. In every successful record of the function with manual benchmarking the
  kilobyte sizes are the quotients themselves.
\<close>

theorem C6_sizes_of_input_and_output:
  "(fst (generate e mdl uml True) = Inr (Bench t m) \<longrightarrow>
       output_size_chars m = length t
     \<and> output_size_kb m = py_round (real (utf8_len t) / 1024) 3
     \<and> \<bar>output_size_kb m - real (utf8_len t) / 1024\<bar> \<le> 1 / 2000
     \<and> input_size_chars m = length uml
     \<and> input_size_kb m = py_round (real (utf8_len uml) / 1024) 3
     \<and> \<bar>input_size_kb m - real (utf8_len uml) / 1024\<bar> \<le> 1 / 2000)
   \<and> (fst (ollamaTest_generate_ontology_with_ollama e uml mdl True) = Bench v d
        \<and> map_of d ''success'' = Some (PBool True) \<longrightarrow>
        (\<exists>t. v = PStr t
           \<and> map_of d ''output_size_chars'' = Some (PInt (int (length t)))
           \<and> map_of d ''output_size_kb'' = Some (PFloat (real (utf8_len t) / 1024))
           \<and> map_of d ''input_size_chars'' = Some (PInt (int (length uml)))
           \<and> map_of d ''input_size_kb'' = Some (PFloat (real (utf8_len uml) / 1024))))"
proof -
  have a: "fst (generate e mdl uml True) = Inr (Bench t m) \<longrightarrow>
       output_size_chars m = length t
     \<and> output_size_kb m = py_round (real (utf8_len t) / 1024) 3
     \<and> \<bar>output_size_kb m - real (utf8_len t) / 1024\<bar> \<le> 1 / 2000
     \<and> input_size_chars m = length uml
     \<and> input_size_kb m = py_round (real (utf8_len uml) / 1024) 3
     \<and> \<bar>input_size_kb m - real (utf8_len uml) / 1024\<bar> \<le> 1 / 2000"
  proof
    assume "fst (generate e mdl uml True) = Inr (Bench t m)"
    from generate_sizes [OF this] show
      "output_size_chars m = length t
     \<and> output_size_kb m = py_round (real (utf8_len t) / 1024) 3
     \<and> \<bar>output_size_kb m - real (utf8_len t) / 1024\<bar> \<le> 1 / 2000
     \<and> input_size_chars m = length uml
     \<and> input_size_kb m = py_round (real (utf8_len uml) / 1024) 3
     \<and> \<bar>input_size_kb m - real (utf8_len uml) / 1024\<bar> \<le> 1 / 2000"
      using py_round_3_close [of "real (utf8_len t) / 1024"]
        py_round_3_close [of "real (utf8_len uml) / 1024"]
      by simp
  qed
  have b: "fst (ollamaTest_generate_ontology_with_ollama e uml mdl True) = Bench v d
        \<and> map_of d ''success'' = Some (PBool True) \<longrightarrow>
        (\<exists>t. v = PStr t
           \<and> map_of d ''output_size_chars'' = Some (PInt (int (length t)))
           \<and> map_of d ''output_size_kb'' = Some (PFloat (real (utf8_len t) / 1024))
           \<and> map_of d ''input_size_chars'' = Some (PInt (int (length uml)))
           \<and> map_of d ''input_size_kb'' = Some (PFloat (real (utf8_len uml) / 1024)))"
    using ollamaTest_success_sizes by blast
  from a b show ?thesis by (rule conjI)
qed

theorem C6_witness:
  "fst (generate example_env_padded ''llama3.1:8b'' ''<model/>'' True)
     = Inr (Bench ''ontology-text''
         \<lparr>model = ''llama3.1:8b'', timestamp = ''2025-01-01T00:00:00'',
          input_size_chars = 8, input_size_kb = 1 / 125,
          generation_time_seconds = 2,
          output_size_chars = 13, output_size_kb = 13 / 1000,
          success = True, error = None,
          tokens_generated = PNone, tokens_per_second = None\<rparr>)
   \<and> length ''ontology-text'' = 13
   \<and> py_round (real (utf8_len ''ontology-text'') / 1024) 3 = 13 / 1000
   \<and> \<bar>13 / 1000 - real (utf8_len ''ontology-text'') / 1024\<bar> \<le> 1 / 2000
   \<and> fst (ollamaTest_generate_ontology_with_ollama example_env_padded ''<model/>''
            ''llama3.1:8b'' True)
       = Bench (PStr ''  ontology-text '')
           (ollamaTest_success_metrics example_env_padded ''<model/>'' ''llama3.1:8b''
              ''  ontology-text '')
   \<and> map_of (ollamaTest_success_metrics example_env_padded ''<model/>'' ''llama3.1:8b''
              ''  ontology-text '') ''output_size_kb''
       = Some (PFloat (real (utf8_len ''  ontology-text '') / 1024))"
proof -
  have r1: "py_round (real (utf8_len ''<model/>'') / 1024) 3 = 1 / 125"
    by (simp add: utf8_len_def py_round_def round_half_even_def)
  have r2: "py_round (real (utf8_len ''ontology-text'') / 1024) 3 = 13 / 1000"
    by (simp add: utf8_len_def py_round_def round_half_even_def)
  have r3: "py_round 2 3 = 2"
    by (simp add: py_round_def round_half_even_def)
  have s: "strip ''<model/>'' = ''<model/>''" "strip ''  ontology-text '' = ''ontology-text''"
    by (simp_all add: strip_def py_isspace_def)
  have g: "fst (generate example_env_padded ''llama3.1:8b'' ''<model/>'' True)
     = Inr (Bench ''ontology-text''
         \<lparr>model = ''llama3.1:8b'', timestamp = ''2025-01-01T00:00:00'',
          input_size_chars = 8, input_size_kb = 1 / 125,
          generation_time_seconds = 2,
          output_size_chars = 13, output_size_kb = 13 / 1000,
          success = True, error = None,
          tokens_generated = PNone, tokens_per_second = None\<rparr>)"
    by (simp add: generate_def generate_try_def reply_content_def extract_metrics_def
        calculate_size_def tokens_of_def tokens_per_sec_of_def example_env_padded_def
        example_reply_def Let_def s r1 r2 r3)
  have f: "fst (ollamaTest_generate_ontology_with_ollama example_env_padded ''<model/>''
            ''llama3.1:8b'' True)
       = Bench (PStr ''  ontology-text '')
           (ollamaTest_success_metrics example_env_padded ''<model/>'' ''llama3.1:8b''
              ''  ontology-text '')"
    by (rule ollamaTest_bench_no_tokens [where kvs = "[(''message'',
          PDict [(''role'', PStr ''assistant''), (''content'', PStr ''  ontology-text '')])]"])
      (simp_all add: example_env_padded_def example_reply_def)
  have k: "map_of (ollamaTest_success_metrics example_env_padded ''<model/>'' ''llama3.1:8b''
              ''  ontology-text '') ''success'' = Some (PBool True)"
    by (simp add: ollamaTest_success_metrics_def ollamaTest_initial_metrics_def)
  show ?thesis
    using C6_sizes_of_input_and_output
      [of example_env_padded "''llama3.1:8b''" "''<model/>''" "''ontology-text''"
          "\<lparr>model = ''llama3.1:8b'', timestamp = ''2025-01-01T00:00:00'',
          input_size_chars = 8, input_size_kb = 1 / 125,
          generation_time_seconds = 2,
          output_size_chars = 13, output_size_kb = 13 / 1000,
          success = True, error = None,
          tokens_generated = PNone, tokens_per_second = None\<rparr>"
          "PStr ''  ontology-text ''"
          "ollamaTest_success_metrics example_env_padded ''<model/>'' ''llama3.1:8b''
              ''  ontology-text ''"]
      g f k
    by simp
qed

text \<open>
  C7, as stated: when the chat call fails and benchmarking is requested, the duration of
  the attempt is measured and recorded in \<^verbatim>\<open>generation_time_seconds\<close> of the failed record.
  The function with manual benchmarking records the constant 0 there: for a client that
  times out after 5 seconds its failed record has \<^verbatim>\<open>generation_time_seconds = 0\<close>.
\<close>

theorem C7_counterexample:
  "map_option (\<lambda>d. map_of d ''generation_time_seconds'')
     (metrics_of (fst (ollamaTest_generate_ontology_with_ollama
        example_env_timeout ''<model/>'' ''llama3.1:8b'' True)))
   = Some (Some (PInt 0))
   \<and> t_end example_env_timeout - t_start example_env_timeout = 5"
  by (simp add: ollamaTest_generate_ontology_with_ollama_def ollamaTest_try_body_def
      example_env_timeout_def Let_def map_of_dict_set)

text \<open>
  C7, amended. In the class-based version, for every generation attempt (on a UML input
  that is not blank) that fails with a transport or API error, that is, whose chat call
  raises an exception derived from \<^verbatim>\<open>Exception\<close>, while benchmarking is requested, a failed
  record is produced and its \<^verbatim>\<open>generation_time_seconds\<close> is the measured duration of the
  attempt rounded to 3 decimals. In the function with manual benchmarking such an attempt
  produces a failed record as well, but its \<^verbatim>\<open>generation_time_seconds\<close> is 0 whatever time
  the attempt took.
\<close>

theorem C7_duration_of_failed_attempt:
  "(uml \<noteq> [] \<and> strip uml \<noteq> [] \<and> chat e mdl (create_prompt uml) = Inl x \<longrightarrow>
       fst (generate e mdl uml True)
         = Inr (Bench [] (failed_metrics e mdl uml (except_message x)))
     \<and> \<not> success (failed_metrics e mdl uml (except_message x))
     \<and> generation_time_seconds (failed_metrics e mdl uml (except_message x))
         = py_round (t_end e - t_start e) 3
     \<and> \<bar>generation_time_seconds (failed_metrics e mdl uml (except_message x))
          - (t_end e - t_start e)\<bar> \<le> 1 / 2000)
   \<and> (chat e mdl (ollamaTest_prompt uml) = Inl y \<longrightarrow>
       fst (ollamaTest_generate_ontology_with_ollama e uml mdl True)
         = Bench (PStr []) (ollamaTest_failed_metrics e uml mdl y)
     \<and> map_of (ollamaTest_failed_metrics e uml mdl y) ''success'' = Some (PBool False)
     \<and> map_of (ollamaTest_failed_metrics e uml mdl y) ''generation_time_seconds''
         = Some (PInt 0))"
proof -
  have a: "uml \<noteq> [] \<and> strip uml \<noteq> [] \<and> chat e mdl (create_prompt uml) = Inl x \<longrightarrow>
       fst (generate e mdl uml True)
         = Inr (Bench [] (failed_metrics e mdl uml (except_message x)))
     \<and> \<not> success (failed_metrics e mdl uml (except_message x))
     \<and> generation_time_seconds (failed_metrics e mdl uml (except_message x))
         = py_round (t_end e - t_start e) 3
     \<and> \<bar>generation_time_seconds (failed_metrics e mdl uml (except_message x))
          - (t_end e - t_start e)\<bar> \<le> 1 / 2000"
  proof (intro impI)
    assume h: "uml \<noteq> [] \<and> strip uml \<noteq> [] \<and> chat e mdl (create_prompt uml) = Inl x"
    then have "and_then (chat e mdl (create_prompt uml)) reply_content = Inl x"
      by simp
    with h have "generate e mdl uml True =
           (Inr (Bench [] (failed_metrics e mdl uml (except_message x))),
            [(mdl, create_prompt uml)])"
      by (simp add: generate_failure_benchmark)
    then show "fst (generate e mdl uml True)
         = Inr (Bench [] (failed_metrics e mdl uml (except_message x)))
     \<and> \<not> success (failed_metrics e mdl uml (except_message x))
     \<and> generation_time_seconds (failed_metrics e mdl uml (except_message x))
         = py_round (t_end e - t_start e) 3
     \<and> \<bar>generation_time_seconds (failed_metrics e mdl uml (except_message x))
          - (t_end e - t_start e)\<bar> \<le> 1 / 2000"
      using py_round_3_close [of "t_end e - t_start e"]
      by (simp add: failed_metrics_def)
  qed
  have b: "chat e mdl (ollamaTest_prompt uml) = Inl y \<longrightarrow>
       fst (ollamaTest_generate_ontology_with_ollama e uml mdl True)
         = Bench (PStr []) (ollamaTest_failed_metrics e uml mdl y)
     \<and> map_of (ollamaTest_failed_metrics e uml mdl y) ''success'' = Some (PBool False)
     \<and> map_of (ollamaTest_failed_metrics e uml mdl y) ''generation_time_seconds''
         = Some (PInt 0)"
    by (simp add: ollamaTest_chat_failure ollamaTest_failed_metrics_def
        ollamaTest_initial_metrics_def)
  from a b show ?thesis by (rule conjI)
qed

theorem C7_witness:
  "strip ''<model/>'' \<noteq> []
   \<and> chat example_env_timeout ''llama3.1:8b'' (create_prompt ''<model/>'')
       = Inl (Exn (OtherError ''ReadTimeout'') [])
   \<and> fst (generate example_env_timeout ''llama3.1:8b'' ''<model/>'' True)
       = Inr (Bench [] (failed_metrics example_env_timeout ''llama3.1:8b'' ''<model/>''
                          ''Ollama API error: ReadTimeout: ''))
   \<and> generation_time_seconds (failed_metrics example_env_timeout ''llama3.1:8b'' ''<model/>''
                          ''Ollama API error: ReadTimeout: '') = 5
   \<and> map_of (ollamaTest_failed_metrics example_env_timeout ''<model/>'' ''llama3.1:8b''
               (Exn (OtherError ''ReadTimeout'') [])) ''generation_time_seconds''
       = Some (PInt 0)"
proof -
  have s: "''<model/>'' \<noteq> []" "strip ''<model/>'' \<noteq> []"
    by (simp_all add: strip_def py_isspace_def)
  have c: "chat example_env_timeout ''llama3.1:8b'' (create_prompt ''<model/>'')
             = Inl (Exn (OtherError ''ReadTimeout'') [])"
    "chat example_env_timeout ''llama3.1:8b'' (ollamaTest_prompt ''<model/>'')
       = Inl (Exn (OtherError ''ReadTimeout'') [])"
    by (simp_all add: example_env_timeout_def)
  have m: "except_message (Exn (OtherError ''ReadTimeout'') [])
             = ''Ollama API error: ReadTimeout: ''"
    by (simp add: except_message_def)
  have r: "py_round (t_end example_env_timeout - t_start example_env_timeout) 3 = 5"
    by (simp add: example_env_timeout_def py_round_def round_half_even_def)
  show ?thesis
    using C7_duration_of_failed_attempt
      [of "''<model/>''" example_env_timeout "''llama3.1:8b''"
          "Exn (OtherError ''ReadTimeout'') []" "Exn (OtherError ''ReadTimeout'') []"]
      s c m r
    by (simp add: example_env_timeout_def)
qed

text \<open>
  C8, as stated: on every well-formed reply the generation operation returns the reply
  text with leading and trailing whitespace removed. The function with manual
  benchmarking returns the content as it came: a reply padded with blanks is returned
  with its blanks, with and without benchmarking.
\<close>

theorem C8_counterexample:
  "fst (ollamaTest_generate_ontology_with_ollama example_env_padded ''<model/>''
          ''llama3.1:8b'' False)
     = Plain (PStr ''  ontology-text '')
   \<and> text_of (fst (ollamaTest_generate_ontology_with_ollama example_env_padded ''<model/>''
          ''llama3.1:8b'' True))
     = PStr ''  ontology-text ''
   \<and> strip ''  ontology-text '' = ''ontology-text''"
  by (simp add: ollamaTest_generate_ontology_with_ollama_def ollamaTest_try_body_def
      ollamaTest_token_info_def example_env_padded_def example_reply_def Let_def
      strip_def py_isspace_def)

text \<open>
  C8, amended. On a reply that is a dictionary whose \<^verbatim>\<open>message\<close> holds a string \<^verbatim>\<open>content\<close>,
  \<^verbatim>\<open>OntologyGenerator.generate\<close> (for a UML input that is not blank) returns the content with
  leading and trailing whitespace removed: alone without benchmarking, and with its record
  when \<^verbatim>\<open>eval_count\<close> is absent or an integer that converts to a \<^verbatim>\<open>float\<close> (one of magnitude
  below \<open>2\<^sup>1\<^sup>0\<^sup>2\<^sup>4 - 2\<^sup>9\<^sup>7\<^sup>0\<close>). The function with manual benchmarking returns the content
  unchanged: alone without benchmarking, and with its record when \<^verbatim>\<open>eval_count\<close> is absent,
  or is such an integer and the two clock readings differ.
\<close>

theorem C8_returned_text:
  assumes "map_of kvs ''message'' = Some (PDict msg)"
    and "map_of msg ''content'' = Some (PStr c)"
  shows "(uml \<noteq> [] \<and> strip uml \<noteq> [] \<and> chat e mdl (create_prompt uml) = Inr (PDict kvs) \<longrightarrow>
            fst (generate e mdl uml False) = Inr (Plain (strip c))
          \<and> (map_of kvs ''eval_count'' = None
               \<or> (\<exists>n. map_of kvs ''eval_count'' = Some (PInt n)
                      \<and> \<bar>n\<bar> < 2 ^ 1024 - 2 ^ 970) \<longrightarrow>
              (\<exists>m. fst (generate e mdl uml True) = Inr (Bench (strip c) m))))
       \<and> (chat e mdl (ollamaTest_prompt uml) = Inr (PDict kvs) \<longrightarrow>
            fst (ollamaTest_generate_ontology_with_ollama e uml mdl False) = Plain (PStr c)
          \<and> (map_of kvs ''eval_count'' = None
               \<or> (\<exists>n. map_of kvs ''eval_count'' = Some (PInt n)
                      \<and> \<bar>n\<bar> < 2 ^ 1024 - 2 ^ 970 \<and> t_end e \<noteq> t_start e) \<longrightarrow>
              (\<exists>d. fst (ollamaTest_generate_ontology_with_ollama e uml mdl True)
                     = Bench (PStr c) d)))"
proof -
  have l: "and_then (getitem_str (PDict kvs) ''message'') (\<lambda>m. getitem_str m ''content'')
             = Inr (PStr c)"
    using assms by simp
  then have r: "reply_content (PDict kvs) = Inr (strip c)"
    by (simp add: reply_content_def)
  have ne: "kvs \<noteq> []"
    using assms(1) by auto
  have a: "uml \<noteq> [] \<and> strip uml \<noteq> [] \<and> chat e mdl (create_prompt uml) = Inr (PDict kvs) \<longrightarrow>
            fst (generate e mdl uml False) = Inr (Plain (strip c))
          \<and> (map_of kvs ''eval_count'' = None
               \<or> (\<exists>n. map_of kvs ''eval_count'' = Some (PInt n)
                      \<and> \<bar>n\<bar> < 2 ^ 1024 - 2 ^ 970) \<longrightarrow>
              (\<exists>m. fst (generate e mdl uml True) = Inr (Bench (strip c) m)))"
  proof (intro impI conjI)
    assume h: "uml \<noteq> [] \<and> strip uml \<noteq> [] \<and> chat e mdl (create_prompt uml) = Inr (PDict kvs)"
    then show "fst (generate e mdl uml False) = Inr (Plain (strip c))"
      using r by (simp add: generate_well_formed_plain)
    assume "map_of kvs ''eval_count'' = None
               \<or> (\<exists>n. map_of kvs ''eval_count'' = Some (PInt n)
                      \<and> \<bar>n\<bar> < 2 ^ 1024 - 2 ^ 970)"
    from extract_metrics_well_formed [OF ne this]
    obtain m where "extract_metrics mdl (now_iso e) uml (strip c) (t_end e - t_start e)
                      (Some (PDict kvs)) None = Inr m"
      by blast
    with h r have "fst (generate e mdl uml True) = Inr (Bench (strip c) m)"
      by (simp add: generate_well_formed_bench)
    then show "\<exists>m. fst (generate e mdl uml True) = Inr (Bench (strip c) m)" ..
  qed
  have b: "chat e mdl (ollamaTest_prompt uml) = Inr (PDict kvs) \<longrightarrow>
            fst (ollamaTest_generate_ontology_with_ollama e uml mdl False) = Plain (PStr c)
          \<and> (map_of kvs ''eval_count'' = None
               \<or> (\<exists>n. map_of kvs ''eval_count'' = Some (PInt n)
                      \<and> \<bar>n\<bar> < 2 ^ 1024 - 2 ^ 970 \<and> t_end e \<noteq> t_start e) \<longrightarrow>
              (\<exists>d. fst (ollamaTest_generate_ontology_with_ollama e uml mdl True)
                     = Bench (PStr c) d))"
  proof (intro impI conjI)
    assume h: "chat e mdl (ollamaTest_prompt uml) = Inr (PDict kvs)"
    then show "fst (ollamaTest_generate_ontology_with_ollama e uml mdl False) = Plain (PStr c)"
      using l by (simp add: ollamaTest_plain)
    assume "map_of kvs ''eval_count'' = None
               \<or> (\<exists>n. map_of kvs ''eval_count'' = Some (PInt n)
                      \<and> \<bar>n\<bar> < 2 ^ 1024 - 2 ^ 970 \<and> t_end e \<noteq> t_start e)"
    then show "\<exists>d. fst (ollamaTest_generate_ontology_with_ollama e uml mdl True)
                     = Bench (PStr c) d"
    proof (elim disjE exE conjE)
      assume "map_of kvs ''eval_count'' = None"
      with h l show ?thesis by (simp add: ollamaTest_bench_no_tokens)
    next
      fix n
      assume "map_of kvs ''eval_count'' = Some (PInt n)" "\<bar>n\<bar> < 2 ^ 1024 - 2 ^ 970"
        "t_end e \<noteq> t_start e"
      with h l show ?thesis by (rule ollamaTest_bench_int_tokens)
    qed
  qed
  from a b show ?thesis by (rule conjI)
qed

theorem C8_witness:
  "map_of [(''message'', PDict [(''role'', PStr ''assistant''),
                                 (''content'', PStr ''  ontology-text '')])] ''message''
     = Some (PDict [(''role'', PStr ''assistant''), (''content'', PStr ''  ontology-text '')])
   \<and> strip ''<model/>'' \<noteq> []
   \<and> fst (generate example_env_padded ''llama3.1:8b'' ''<model/>'' False)
       = Inr (Plain ''ontology-text'')
   \<and> (\<exists>m. fst (generate example_env_padded ''llama3.1:8b'' ''<model/>'' True)
            = Inr (Bench ''ontology-text'' m))
   \<and> fst (ollamaTest_generate_ontology_with_ollama example_env_padded ''<model/>''
            ''llama3.1:8b'' False)
       = Plain (PStr ''  ontology-text '')
   \<and> (\<exists>d. fst (ollamaTest_generate_ontology_with_ollama example_env_padded ''<model/>''
            ''llama3.1:8b'' True)
       = Bench (PStr ''  ontology-text '') d)
   \<and> \<bar>26 :: int\<bar> < 2 ^ 1024 - 2 ^ 970
   \<and> t_end example_env \<noteq> t_start example_env
   \<and> (\<exists>m. fst (generate example_env ''llama3.1:8b'' ''<model/>'' True)
            = Inr (Bench ''ontology-text'' m))
   \<and> (\<exists>d. fst (ollamaTest_generate_ontology_with_ollama example_env ''<model/>''
            ''llama3.1:8b'' True)
       = Bench (PStr ''ontology-text'') d)"
proof -
  have s: "''<model/>'' \<noteq> []" "strip ''<model/>'' \<noteq> []"
    "strip ''  ontology-text '' = ''ontology-text''"
    "strip ''ontology-text'' = ''ontology-text''"
    by (simp_all add: strip_def py_isspace_def)
  have c: "chat example_env_padded ''llama3.1:8b'' (create_prompt ''<model/>'')
             = Inr (PDict [(''message'', PDict [(''role'', PStr ''assistant''),
                                 (''content'', PStr ''  ontology-text '')])])"
    "chat example_env_padded ''llama3.1:8b'' (ollamaTest_prompt ''<model/>'')
             = Inr (PDict [(''message'', PDict [(''role'', PStr ''assistant''),
                                 (''content'', PStr ''  ontology-text '')])])"
    by (simp_all add: example_env_padded_def example_reply_def)
  have c': "chat example_env ''llama3.1:8b'' (create_prompt ''<model/>'')
             = Inr (PDict [(''message'', PDict [(''role'', PStr ''assistant''),
                                 (''content'', PStr ''ontology-text'')]),
                           (''eval_count'', PInt 26)])"
    "chat example_env ''llama3.1:8b'' (ollamaTest_prompt ''<model/>'')
             = Inr (PDict [(''message'', PDict [(''role'', PStr ''assistant''),
                                 (''content'', PStr ''ontology-text'')]),
                           (''eval_count'', PInt 26)])"
    by (simp_all add: example_env_def example_reply_def)
  have n: "\<bar>26 :: int\<bar> < 2 ^ 1024 - 2 ^ 970"
    by simp
  have t: "t_end example_env \<noteq> t_start example_env"
    by (simp add: example_env_def)
  show ?thesis
    using C8_returned_text
      [of "[(''message'', PDict [(''role'', PStr ''assistant''),
                                 (''content'', PStr ''  ontology-text '')])]"
          "[(''role'', PStr ''assistant''), (''content'', PStr ''  ontology-text '')]"
          "''  ontology-text ''" "''<model/>''" example_env_padded "''llama3.1:8b''"]
      C8_returned_text
      [of "[(''message'', PDict [(''role'', PStr ''assistant''),
                                 (''content'', PStr ''ontology-text'')]),
            (''eval_count'', PInt 26)]"
          "[(''role'', PStr ''assistant''), (''content'', PStr ''ontology-text'')]"
          "''ontology-text''" "''<model/>''" example_env "''llama3.1:8b''"]
      s c c' n t
    by simp
qed

text \<open>
  C9. The bare call of \<^verbatim>\<open>ontologyGenerator/models/ollama.py\<close> reads
  \<^verbatim>\<open>response['choices'][0]['message']['content']\<close>. On every reply of the shape the later
  versions read (a dictionary with a \<^verbatim>\<open>message\<close> holding a \<^verbatim>\<open>content\<close> string and no key
  \<^verbatim>\<open>choices\<close>) the first subscript raises a \<^verbatim>\<open>KeyError\<close>, the function takes its \<^verbatim>\<open>except\<close>
  clause and returns the empty string, whatever the content; the extraction of the later
  versions returns the content of that same reply.
\<close>

theorem C9_choices_indexing_misses_message_shape:
  assumes "chat e mdl (ollama_prompt uml) = Inr (PDict kvs)"
    and "map_of kvs ''choices'' = None"
    and "map_of kvs ''message'' = Some (PDict msg)"
    and "map_of msg ''content'' = Some (PStr c)"
  shows "choices_content (PDict kvs) = Inl (Exn KeyError (quoted ''choices''))
       \<and> ollama_generate_ontology_with_ollama e uml mdl = (PStr [], [(mdl, ollama_prompt uml)])
       \<and> and_then (getitem_str (PDict kvs) ''message'') (\<lambda>m. getitem_str m ''content'')
           = Inr (PStr c)
       \<and> reply_content (PDict kvs) = Inr (strip c)"
proof -
  have k: "choices_content (PDict kvs) = Inl (Exn KeyError (quoted ''choices''))"
    using assms(2) by (simp add: choices_content_def)
  have g: "ollama_generate_ontology_with_ollama e uml mdl
             = (PStr [], [(mdl, ollama_prompt uml)])"
    using assms(1) k by (simp add: ollama_generate_ontology_with_ollama_def Let_def)
  have l: "and_then (getitem_str (PDict kvs) ''message'') (\<lambda>m. getitem_str m ''content'')
             = Inr (PStr c)"
    using assms(3,4) by simp
  then have r: "reply_content (PDict kvs) = Inr (strip c)"
    by (simp add: reply_content_def)
  from k g l r show ?thesis by (intro conjI)
qed

theorem C9_witness:
  "chat example_env ''llama3.1:8b'' (ollama_prompt ''<model/>'')
     = Inr (example_reply ''ontology-text'' [(''eval_count'', PInt 26)])
   \<and> fst (ollama_generate_ontology_with_ollama example_env ''<model/>'' ''llama3.1:8b'') = PStr []
   \<and> reply_content (example_reply ''ontology-text'' [(''eval_count'', PInt 26)])
       = Inr ''ontology-text''"
proof -
  have s: "strip ''ontology-text'' = ''ontology-text''"
    by (simp add: strip_def py_isspace_def)
  show ?thesis
    using C9_choices_indexing_misses_message_shape
      [of example_env "''llama3.1:8b''" "''<model/>''"
          "[(''message'', PDict [(''role'', PStr ''assistant''), (''content'', PStr ''ontology-text'')]),
            (''eval_count'', PInt 26)]"
          "[(''role'', PStr ''assistant''), (''content'', PStr ''ontology-text'')]"
          "''ontology-text''"] s
    by (simp add: example_env_def example_reply_def)
qed

text \<open>
  C10. In the class-based version, \<^verbatim>\<open>generate\<close> called with \<^verbatim>\<open>benchmark=True\<close> does not pass a
  failure of the chat call (or of reading the reply) on to its caller: the \<^verbatim>\<open>finally\<close>
  clause returns, so the \<^verbatim>\<open>RuntimeError\<close> raised by the \<^verbatim>\<open>except\<close> clause is dropped and the
  caller receives the empty string with the metrics of a failed attempt. Called with
  \<^verbatim>\<open>benchmark=False\<close> on the same input, it raises that \<^verbatim>\<open>RuntimeError\<close>.
\<close>

theorem C10_finally_return_suppresses_failure:
  assumes "uml \<noteq> []" and "strip uml \<noteq> []"
    and "and_then (chat e mdl (create_prompt uml)) reply_content = Inl x"
  shows "generate e mdl uml True =
           (Inr (Bench [] (failed_metrics e mdl uml (except_message x))),
            [(mdl, create_prompt uml)])
       \<and> success (failed_metrics e mdl uml (except_message x)) = False
       \<and> generate e mdl uml False =
           (Inl (Exn RuntimeError (except_message x)), [(mdl, create_prompt uml)])"
  using generate_failure_benchmark [OF assms] generate_failure_plain [OF assms]
  by (simp add: failed_metrics_def)

theorem C10_witness:
  "''<model/>'' \<noteq> [] \<and> strip ''<model/>'' \<noteq> []
   \<and> chat example_env_timeout ''llama3.1:8b'' (create_prompt ''<model/>'')
       = Inl (Exn (OtherError ''ReadTimeout'') [])
   \<and> fst (generate example_env_timeout ''llama3.1:8b'' ''<model/>'' True) =
       Inr (Bench [] (failed_metrics example_env_timeout ''llama3.1:8b'' ''<model/>''
                        ''Ollama API error: ReadTimeout: ''))
   \<and> fst (generate example_env_timeout ''llama3.1:8b'' ''<model/>'' False) =
       Inl (Exn RuntimeError ''Ollama API error: ReadTimeout: '')"
proof -
  have s: "strip ''<model/>'' \<noteq> []"
    by (simp add: strip_def py_isspace_def)
  have c: "and_then (chat example_env_timeout ''llama3.1:8b'' (create_prompt ''<model/>''))
             reply_content = Inl (Exn (OtherError ''ReadTimeout'') [])"
    by (simp add: example_env_timeout_def)
  have m: "except_message (Exn (OtherError ''ReadTimeout'') [])
             = ''Ollama API error: ReadTimeout: ''"
    by (simp add: except_message_def)
  show ?thesis
    using C10_finally_return_suppresses_failure [OF _ s c] s m
    by (simp add: example_env_timeout_def)
qed

end
